theory Spec2Isabelle
  imports Main "HOL-Library.Multiset"
begin

section \<open>The post controller of the blog backend: caching and ownership\<close>

text \<open>
  The theory embeds \<^verbatim>\<open>src/controllers/post.ts\<close> (\<^verbatim>\<open>createPost\<close>, \<^verbatim>\<open>getAllPosts\<close>,
  \<^verbatim>\<open>updatePost\<close>, \<^verbatim>\<open>deletePost\<close>) and the two zod schemas of
  \<^verbatim>\<open>src/validations/blog.validation.ts\<close>. The controllers are asynchronous functions
  that talk to a document database, a Redis client and an image uploader; here each
  of them is a function from the state of those collaborators to a response and the
  new state. An exception is a value, \<^verbatim>\<open>try/catch\<close> is a combinator, and every call
  that leaves the process is recorded in a log, so that "no store access" is a
  statement about the log.
\<close>

subsection \<open>JSON values and the strings Redis holds\<close>

text \<open>
  What \<^verbatim>\<open>JSON.parse\<close> returns and \<^verbatim>\<open>JSON.stringify\<close> accepts. Numbers are carried
  around and never computed with; an object is the list of its members.
\<close>

datatype json =
    JNull
  | JBool bool
  | JNum int
  | JStr string
  | JArr "json list"
  | JObj "(string \<times> json) list"

text \<open>
  A Redis value is a string. The controller only tests it for truthiness and hands it
  to \<^verbatim>\<open>JSON.parse\<close>, so a string is represented by what those two see: the JSON text
  of a value, the empty string (falsy), or any other string (truthy, no JSON text).
\<close>

datatype redis_string = JsonText json | EmptyString | NotJson

datatype exn =
    ZodError "string list"
  | SyntaxError
  | TypeError
  | CastError
  | CacheError string
  | UploadError string

definition JSON_stringify :: "json \<Rightarrow> redis_string" where
  "JSON_stringify v = JsonText v"

text \<open>\<^verbatim>\<open>JSON.parse(null)\<close> is \<^verbatim>\<open>null\<close>; a string that is no JSON text raises.\<close>

definition JSON_parse :: "redis_string option \<Rightarrow> exn + json" where
  "JSON_parse s =
     (case s of
        None \<Rightarrow> Inr JNull
      | Some (JsonText v) \<Rightarrow> Inr v
      | Some EmptyString \<Rightarrow> Inl SyntaxError
      | Some NotJson \<Rightarrow> Inl SyntaxError)"

text \<open>The test \<^verbatim>\<open>if (cachedPosts)\<close> on a value of type \<^verbatim>\<open>string | null\<close>.\<close>

definition truthy :: "redis_string option \<Rightarrow> bool" where
  "truthy s = (case s of None \<Rightarrow> False | Some EmptyString \<Rightarrow> False | Some _ \<Rightarrow> True)"

subsection \<open>The collaborators' state\<close>

text \<open>
  Modelled from the spec: the mongoose models (\<^verbatim>\<open>models/post.model.js\<close>,
  \<^verbatim>\<open>models/category.model.js\<close>, the user model) are not among the sources. The
  records below follow section 3 of the specification and the fields the controller
  reads and writes. A stored identifier is the hexadecimal string of its ObjectId.
\<close>

record user =
  user_id :: string
  username :: string
  fullname :: string
  profilePicture :: string

record category =
  category_id :: string
  cat_name :: string

record post =
  post_id :: string
  content :: string
  author :: string
  image :: "string option"
  tags :: "string list"
  category :: string
  createdAt :: nat

record db =
  posts :: "post list"
  categories :: "category list"
  users :: "user list"

record entry =
  val :: redis_string
  ttl :: "nat option"

datatype cache_op = OpGet | OpSet | OpDel

text \<open>
  The Redis client: the entries, and for each kind of call the error it raises at the
  moment, if any (a lost connection, a timeout).
\<close>

record redis =
  kv :: "string \<rightharpoonup> entry"
  fault :: "cache_op \<Rightarrow> string option"

datatype db_call =
    Post_find
  | Post_findById string
  | Post_create string
  | Post_findByIdAndUpdate string
  | Post_findByIdAndDelete string
  | Category_findOne string
  | Category_save string

datatype event =
    Cache_get string
  | Cache_set string redis_string "nat option"
  | Cache_del string
  | Db db_call
  | Upload string

record world =
  store :: db
  cache :: redis
  log :: "event list"

text \<open>
  What the environment decides during one request: the identifiers and the creation
  time the store assigns, the outcome of an upload (\<^verbatim>\<open>utils/cloudinary.js\<close> is not
  among the sources; the specification gives it as
  \<^verbatim>\<open>upload(filePath) -> { secureUrl }\<close>, failing with an upload error), and which
  strings \<^verbatim>\<open>mongoose.Types.ObjectId.isValid\<close> accepts. The library's test is not
  part of the repository, so it is a parameter; the same strings are taken to be the
  ones mongoose can cast to an ObjectId in a query. A query by identifier compares
  ObjectIds, not strings: \<open>castObjectId\<close> gives, for a string that is cast, the
  hexadecimal string of the ObjectId it is cast to, which is the string a stored
  document carries as its \<^verbatim>\<open>_id\<close>. Two spellings of one ObjectId (hexadecimal digits in
  upper and in lower case) are cast to the same string.
\<close>

record env =
  new_post_id :: string
  new_category_id :: string
  now :: nat
  uploadOnCloudinary :: "string \<Rightarrow> exn + string option"
  isValid :: "string \<Rightarrow> bool"
  castObjectId :: "string \<Rightarrow> string"

subsection \<open>Asynchronous code with exceptions\<close>

type_synonym 'a io = "world \<Rightarrow> (exn + 'a) \<times> world"

definition return_io :: "'a \<Rightarrow> 'a io" where
  "return_io x = (\<lambda>w. (Inr x, w))"

definition bind_io :: "'a io \<Rightarrow> ('a \<Rightarrow> 'b io) \<Rightarrow> 'b io" where
  "bind_io m f = (\<lambda>w. case m w of (Inl e, w') \<Rightarrow> (Inl e, w') | (Inr x, w') \<Rightarrow> f x w')"

definition lift_io :: "exn + 'a \<Rightarrow> 'a io" where
  "lift_io r = (\<lambda>w. (r, w))"

definition emit :: "event \<Rightarrow> world \<Rightarrow> world" where
  "emit ev w = w\<lparr>log := log w @ [ev]\<rparr>"

text \<open>\<^verbatim>\<open>try { body } catch (error) { return handler(error) }\<close>, the body returning a response.\<close>

definition try_catch :: "'r io \<Rightarrow> (exn \<Rightarrow> 'r) \<Rightarrow> world \<Rightarrow> 'r \<times> world" where
  "try_catch body handler =
     (\<lambda>w. case body w of (Inr r, w') \<Rightarrow> (r, w') | (Inl e, w') \<Rightarrow> (handler e, w'))"

subsection \<open>The Redis client\<close>

definition client_get :: "string \<Rightarrow> redis_string option io" where
  "client_get k = (\<lambda>w.
     case fault (cache w) OpGet of
       Some m \<Rightarrow> (Inl (CacheError m), emit (Cache_get k) w)
     | None \<Rightarrow> (Inr (map_option val (kv (cache w) k)), emit (Cache_get k) w))"

text \<open>\<^verbatim>\<open>SET key value [EX seconds]\<close>: without \<^verbatim>\<open>EX\<close> the entry has no expiry afterwards.\<close>

definition client_set :: "string \<Rightarrow> redis_string \<Rightarrow> nat option \<Rightarrow> unit io" where
  "client_set k v ex = (\<lambda>w.
     case fault (cache w) OpSet of
       Some m \<Rightarrow> (Inl (CacheError m), emit (Cache_set k v ex) w)
     | None \<Rightarrow>
         (Inr (),
          emit (Cache_set k v ex)
            (w\<lparr>cache := (cache w)\<lparr>kv := (kv (cache w))(k \<mapsto> \<lparr>val = v, ttl = ex\<rparr>)\<rparr>\<rparr>)))"

definition client_del :: "string \<Rightarrow> unit io" where
  "client_del k = (\<lambda>w.
     case fault (cache w) OpDel of
       Some m \<Rightarrow> (Inl (CacheError m), emit (Cache_del k) w)
     | None \<Rightarrow>
         (Inr (),
          emit (Cache_del k) (w\<lparr>cache := (cache w)\<lparr>kv := (kv (cache w))(k := None)\<rparr>\<rparr>)))"

subsection \<open>The store\<close>

text \<open>
  Modelled from the spec: the calls on \<^verbatim>\<open>postModel\<close> and \<^verbatim>\<open>categoryModel\<close> are mongoose
  queries on models that are not among the sources. They follow the store interface
  of section 6 of the specification (\<^verbatim>\<open>createPost(fields) -> Post\<close>,
  \<^verbatim>\<open>getPost(id) -> Post?\<close>, \<^verbatim>\<open>listPosts(filter?, sort) -> Post[]\<close>,
  \<^verbatim>\<open>updatePost(id, fields) -> Post?\<close>, \<^verbatim>\<open>deletePost(id) -> Post?\<close>,
  \<^verbatim>\<open>getOrCreateCategory(name) -> Category\<close>) on collections kept in insertion order; a
  lookup finds the first document with the identifier. Each call is logged.

  \<^verbatim>\<open>.populate('author', 'username profilePicture fullname')\<close> and
  \<^verbatim>\<open>.populate('category', 'name')\<close>: the reference is replaced by the selected fields of
  the document it names, or by \<^verbatim>\<open>null\<close> when there is none. The result is given as the
  JSON the document serializes to, with the fields of the data model; the creation time
  is carried as a number.
\<close>

definition populate_author :: "db \<Rightarrow> string \<Rightarrow> json" where
  "populate_author d a =
     (case find (\<lambda>u. user_id u = a) (users d) of
        None \<Rightarrow> JNull
      | Some u \<Rightarrow>
          JObj [(''_id'', JStr (user_id u)), (''username'', JStr (username u)),
                (''profilePicture'', JStr (profilePicture u)),
                (''fullname'', JStr (fullname u))])"

definition populate_category :: "db \<Rightarrow> string \<Rightarrow> json" where
  "populate_category d c =
     (case find (\<lambda>x. category_id x = c) (categories d) of
        None \<Rightarrow> JNull
      | Some x \<Rightarrow> JObj [(''_id'', JStr (category_id x)), (''name'', JStr (cat_name x))])"

definition json_of_option :: "string option \<Rightarrow> json" where
  "json_of_option s = (case s of None \<Rightarrow> JNull | Some x \<Rightarrow> JStr x)"

definition populated :: "db \<Rightarrow> post \<Rightarrow> json" where
  "populated d p =
     JObj [(''_id'', JStr (post_id p)),
           (''content'', JStr (content p)),
           (''author'', populate_author d (author p)),
           (''image'', json_of_option (image p)),
           (''tags'', JArr (map JStr (tags p))),
           (''category'', populate_category d (category p)),
           (''createdAt'', JNum (int (createdAt p)))]"

text \<open>
  \<^verbatim>\<open>.sort({ createdAt: -1 })\<close>: newest first. Posts created at the same time keep
  their order in the collection; the database promises no order for them.
\<close>

definition newest_first :: "post list \<Rightarrow> post list" where
  "newest_first ps = sort_key (\<lambda>p. - int (createdAt p)) ps"

text \<open>\<^verbatim>\<open>postModel.find().sort({ createdAt: -1 }).populate(...).populate(...)\<close>\<close>

definition postModel_find_sorted_populated :: "json list io" where
  "postModel_find_sorted_populated = (\<lambda>w.
     (Inr (map (populated (store w)) (newest_first (posts (store w)))),
      emit (Db Post_find) w))"

subsection \<open>Responses\<close>

text \<open>
  The body of a response: \<^verbatim>\<open>success\<close>, \<^verbatim>\<open>message\<close>, the other members
  (\<^verbatim>\<open>data\<close>, \<^verbatim>\<open>deletedPostId\<close>), and under \<^verbatim>\<open>error\<close> the message of an exception, kept
  as the exception it is the message of.
\<close>

record response =
  status :: nat
  success :: bool
  message :: json
  members :: "(string \<times> json) list"
  error :: "exn option"

definition CACHE_KEY :: string where
  "CACHE_KEY = ''posts:all''"

definition PROFILE_CACHE_KEY :: "string \<Rightarrow> string" where
  "PROFILE_CACHE_KEY userId = ''profile:'' @ userId"

definition POSTS_CACHE_KEY :: "string \<Rightarrow> string" where
  "POSTS_CACHE_KEY userId = ''posts:'' @ userId"

definition cacheTTL :: nat where
  "cacheTTL = 43200"

subsection \<open>getAllPosts\<close>

definition getAllPosts :: "world \<Rightarrow> response \<times> world" where
  "getAllPosts =
     try_catch
       (bind_io (client_get CACHE_KEY) (\<lambda>getDataFromCache.
          if truthy getDataFromCache then
            bind_io (lift_io (JSON_parse getDataFromCache)) (\<lambda>parsed.
              return_io \<lparr>status = 200, success = True,
                         message = JStr ''All posts retrieved successfully'',
                         members = [(''data'', parsed)], error = None\<rparr>)
          else
            bind_io postModel_find_sorted_populated (\<lambda>allPosts.
            bind_io (client_set CACHE_KEY (JSON_stringify (JArr allPosts)) (Some cacheTTL)) (\<lambda>_.
              return_io \<lparr>status = 200, success = True,
                         message = JStr ''All posts retrieved successfully'',
                         members = [(''data'', JArr allPosts)], error = None\<rparr>))))
       (\<lambda>error. \<lparr>status = 500, success = False,
                  message = JStr ''Failed to get all posts'',
                  members = [], error = Some error\<rparr>)"

subsection \<open>Request validation (blog.validation.ts)\<close>

text \<open>
  \<^verbatim>\<open>String.prototype.trim\<close> on the whitespace of ASCII: tab, line feed, vertical tab,
  form feed, carriage return, space. A \<^typ>\<open>string\<close> is a list of bytes; the
  whitespace beyond ASCII that JavaScript also strips is not represented.
\<close>

definition is_ws :: "char \<Rightarrow> bool" where
  "is_ws c = (c \<in> set [CHR 0x09, CHR 0x0A, CHR 0x0B, CHR 0x0C, CHR 0x0D, CHR 0x20])"

definition trim :: "string \<Rightarrow> string" where
  "trim s = rev (dropWhile is_ws (rev (dropWhile is_ws s)))"

text \<open>The name zod gives the type of a received value in its messages.\<close>

definition typeName :: "json \<Rightarrow> string" where
  "typeName v =
     (case v of
        JNull \<Rightarrow> ''null''
      | JBool _ \<Rightarrow> ''boolean''
      | JNum _ \<Rightarrow> ''number''
      | JStr _ \<Rightarrow> ''string''
      | JArr _ \<Rightarrow> ''array''
      | JObj _ \<Rightarrow> ''object'')"

text \<open>
  \<^verbatim>\<open>z.string().min(1, { message }).transform((val) => val.trim())\<close> on a member that
  may be missing: the type check, then the length check on the string as received,
  then the transformation of a string that passed both.
\<close>

definition zod_string_min1_trim :: "string \<Rightarrow> json option \<Rightarrow> string list + string" where
  "zod_string_min1_trim msg v =
     (case v of
        None \<Rightarrow> Inl [''Required'']
      | Some (JStr s) \<Rightarrow> if 1 \<le> length s then Inr (trim s) else Inl [msg]
      | Some x \<Rightarrow> Inl [''Expected string, received '' @ typeName x])"

definition item_issue :: "json \<Rightarrow> string list" where
  "item_issue x =
     (case x of JStr _ \<Rightarrow> [] | _ \<Rightarrow> [''Expected string, received '' @ typeName x])"

definition item_string :: "json \<Rightarrow> string list" where
  "item_string x = (case x of JStr s \<Rightarrow> [s] | _ \<Rightarrow> [])"

text \<open>\<^verbatim>\<open>z.array(z.string()).optional()\<close>\<close>

definition zod_string_array_optional :: "json option \<Rightarrow> string list + string list option" where
  "zod_string_array_optional v =
     (case v of
        None \<Rightarrow> Inr None
      | Some (JArr xs) \<Rightarrow>
          if concat (map item_issue xs) = [] then Inr (Some (concat (map item_string xs)))
          else Inl (concat (map item_issue xs))
      | Some x \<Rightarrow> Inl [''Expected array, received '' @ typeName x])"

definition issues_of :: "string list + 'a \<Rightarrow> string list" where
  "issues_of r = (case r of Inl msgs \<Rightarrow> msgs | Inr _ \<Rightarrow> [])"

record createPostData =
  p_content :: string
  p_tags :: "string list option"
  p_category :: string

text \<open>\<^verbatim>\<open>createPostValidation.parse(req.body)\<close>: the issues of all members are collected.\<close>

definition createPostValidation_parse :: "json \<Rightarrow> exn + createPostData" where
  "createPostValidation_parse b =
     (case b of
        JObj kvs \<Rightarrow>
          (case (zod_string_min1_trim ''Content should have at least 1 characters''
                   (map_of kvs ''content''),
                 zod_string_array_optional (map_of kvs ''tags''),
                 zod_string_min1_trim ''Category is required'' (map_of kvs ''category'')) of
             (Inr c, Inr t, Inr g) \<Rightarrow> Inr \<lparr>p_content = c, p_tags = t, p_category = g\<rparr>
           | (c, t, g) \<Rightarrow> Inl (ZodError (issues_of c @ issues_of t @ issues_of g)))
      | _ \<Rightarrow> Inl (ZodError [''Expected object, received '' @ typeName b]))"

text \<open>\<^verbatim>\<open>updatePostValidation.parse(req.body)\<close>: the parsed data is the content alone.\<close>

definition updatePostValidation_parse :: "json \<Rightarrow> exn + string" where
  "updatePostValidation_parse b =
     (case b of
        JObj kvs \<Rightarrow>
          (case zod_string_min1_trim ''Content should have at least 1 characters''
                  (map_of kvs ''content'') of
             Inr c \<Rightarrow> Inr c
           | Inl msgs \<Rightarrow> Inl (ZodError msgs))
      | _ \<Rightarrow> Inl (ZodError [''Expected object, received '' @ typeName b]))"

subsection \<open>Store calls of the mutating controllers\<close>

definition categoryModel_findOne :: "string \<Rightarrow> category option io" where
  "categoryModel_findOne n = (\<lambda>w.
     (Inr (find (\<lambda>c. cat_name c = n) (categories (store w))),
      emit (Db (Category_findOne n)) w))"

text \<open>\<^verbatim>\<open>new categoryModel({ name }).save()\<close>\<close>

definition categoryModel_save :: "env \<Rightarrow> string \<Rightarrow> category io" where
  "categoryModel_save env n = (\<lambda>w.
     (Inr \<lparr>category_id = new_category_id env, cat_name = n\<rparr>,
      emit (Db (Category_save n))
        (w\<lparr>store := (store w)\<lparr>categories :=
              categories (store w) @ [\<lparr>category_id = new_category_id env, cat_name = n\<rparr>]\<rparr>\<rparr>)))"

definition new_post ::
  "env \<Rightarrow> string \<Rightarrow> string \<Rightarrow> string option \<Rightarrow> string list option \<Rightarrow> string \<Rightarrow> post" where
  "new_post env c a img t cat =
     \<lparr>post_id = new_post_id env, content = c, author = a, image = img,
      tags = (case t of None \<Rightarrow> [] | Some xs \<Rightarrow> xs), category = cat,
      createdAt = now env\<rparr>"

text \<open>\<^verbatim>\<open>postModel.create({ content, author, image, tags, category })\<close>\<close>

definition postModel_create ::
  "env \<Rightarrow> string \<Rightarrow> string \<Rightarrow> string option \<Rightarrow> string list option \<Rightarrow> string \<Rightarrow> post io" where
  "postModel_create env c a img t cat = (\<lambda>w.
     (Inr (new_post env c a img t cat),
      emit (Db (Post_create (new_post_id env)))
        (w\<lparr>store := (store w)\<lparr>posts := posts (store w) @ [new_post env c a img t cat]\<rparr>\<rparr>)))"

text \<open>
  \<^verbatim>\<open>postModel.findById(doc._id).populate(...).populate(...)\<close> on the identifier of a
  document just written: nothing is cast. No document gives \<^verbatim>\<open>null\<close>.
\<close>

definition populated_by_id :: "db \<Rightarrow> string \<Rightarrow> json" where
  "populated_by_id d i =
     (case find (\<lambda>p. post_id p = i) (posts d) of
        None \<Rightarrow> JNull
      | Some p \<Rightarrow> populated d p)"

definition postModel_findById_populated :: "string \<Rightarrow> json io" where
  "postModel_findById_populated i = (\<lambda>w.
     (Inr (populated_by_id (store w) i), emit (Db (Post_findById i)) w))"

text \<open>
  \<^verbatim>\<open>postModel.findById(req.params.id)\<close>: mongoose casts the string to an ObjectId and
  raises a CastError when it cannot; the document found is the one whose \<^verbatim>\<open>_id\<close> is
  that ObjectId, whatever the spelling of the request. The same holds of
  \<^verbatim>\<open>findByIdAndUpdate\<close> and \<^verbatim>\<open>findByIdAndDelete\<close>.
\<close>

definition postModel_findById :: "env \<Rightarrow> string \<Rightarrow> post option io" where
  "postModel_findById env i = (\<lambda>w.
     if isValid env i then
       (Inr (find (\<lambda>p. post_id p = castObjectId env i) (posts (store w))), emit (Db (Post_findById i)) w)
     else (Inl CastError, emit (Db (Post_findById i)) w))"

fun update_first :: "('a \<Rightarrow> bool) \<Rightarrow> ('a \<Rightarrow> 'a) \<Rightarrow> 'a list \<Rightarrow> 'a list" where
  "update_first P f [] = []"
| "update_first P f (x # xs) = (if P x then f x # xs else x # update_first P f xs)"

fun delete_first :: "('a \<Rightarrow> bool) \<Rightarrow> 'a list \<Rightarrow> 'a list" where
  "delete_first P [] = []"
| "delete_first P (x # xs) = (if P x then xs else x # delete_first P xs)"

text \<open>\<^verbatim>\<open>postModel.findByIdAndUpdate(postId, { $set: parsedData }, { new: true })\<close>\<close>

definition postModel_findByIdAndUpdate :: "env \<Rightarrow> string \<Rightarrow> string \<Rightarrow> post option io" where
  "postModel_findByIdAndUpdate env i c = (\<lambda>w.
     if isValid env i then
       (Inr (map_option (\<lambda>p. p\<lparr>content := c\<rparr>) (find (\<lambda>p. post_id p = castObjectId env i) (posts (store w)))),
        emit (Db (Post_findByIdAndUpdate i))
          (w\<lparr>store := (store w)\<lparr>posts :=
                update_first (\<lambda>p. post_id p = castObjectId env i) (\<lambda>p. p\<lparr>content := c\<rparr>) (posts (store w))\<rparr>\<rparr>))
     else (Inl CastError, emit (Db (Post_findByIdAndUpdate i)) w))"

text \<open>\<^verbatim>\<open>postModel.findByIdAndDelete(postId)\<close>\<close>

definition postModel_findByIdAndDelete :: "env \<Rightarrow> string \<Rightarrow> post option io" where
  "postModel_findByIdAndDelete env i = (\<lambda>w.
     if isValid env i then
       (Inr (find (\<lambda>p. post_id p = castObjectId env i) (posts (store w))),
        emit (Db (Post_findByIdAndDelete i))
          (w\<lparr>store := (store w)\<lparr>posts :=
                delete_first (\<lambda>p. post_id p = castObjectId env i) (posts (store w))\<rparr>\<rparr>))
     else (Inl CastError, emit (Db (Post_findByIdAndDelete i)) w))"

definition uploadOnCloudinary_io :: "env \<Rightarrow> string \<Rightarrow> string option io" where
  "uploadOnCloudinary_io env path = (\<lambda>w. (uploadOnCloudinary env path, emit (Upload path) w))"

text \<open>An inner \<^verbatim>\<open>try/catch\<close> whose handler goes on computing.\<close>

definition catch_io :: "'a io \<Rightarrow> (exn \<Rightarrow> 'a io) \<Rightarrow> 'a io" where
  "catch_io m h = (\<lambda>w. case m w of (Inl e, w') \<Rightarrow> h e w' | (Inr x, w') \<Rightarrow> (Inr x, w'))"

subsection \<open>Array methods on parsed JSON\<close>

text \<open>
  The parsed cache value has type \<^verbatim>\<open>any\<close>. Calling an array method on a value that is
  no array raises a TypeError, and so does reading \<^verbatim>\<open>p._id\<close> when \<^verbatim>\<open>p\<close> is \<^verbatim>\<open>null\<close>;
  on any other value that is no object the member is \<^verbatim>\<open>undefined\<close>.
\<close>

definition array_of :: "json \<Rightarrow> exn + json list" where
  "array_of v = (case v of JArr xs \<Rightarrow> Inr xs | _ \<Rightarrow> Inl TypeError)"

definition member_id :: "json \<Rightarrow> exn + json option" where
  "member_id p =
     (case p of
        JNull \<Rightarrow> Inl TypeError
      | JObj kvs \<Rightarrow> Inr (map_of kvs ''_id'')
      | _ \<Rightarrow> Inr None)"

text \<open>\<^verbatim>\<open>(p) => p._id === postId\<close> and \<^verbatim>\<open>(p) => p._id !== postId\<close>\<close>

definition id_is :: "string \<Rightarrow> json \<Rightarrow> exn + bool" where
  "id_is postId p =
     (case member_id p of Inl e \<Rightarrow> Inl e | Inr m \<Rightarrow> Inr (m = Some (JStr postId)))"

definition id_is_not :: "string \<Rightarrow> json \<Rightarrow> exn + bool" where
  "id_is_not postId p =
     (case member_id p of Inl e \<Rightarrow> Inl e | Inr m \<Rightarrow> Inr (m \<noteq> Some (JStr postId)))"

fun findIndex_from :: "(json \<Rightarrow> exn + bool) \<Rightarrow> json list \<Rightarrow> int \<Rightarrow> exn + int" where
  "findIndex_from f [] i = Inr (- 1)"
| "findIndex_from f (p # ps) i =
     (case f p of
        Inl e \<Rightarrow> Inl e
      | Inr b \<Rightarrow> if b then Inr i else findIndex_from f ps (i + 1))"

definition findIndex :: "(json \<Rightarrow> exn + bool) \<Rightarrow> json list \<Rightarrow> exn + int" where
  "findIndex f ps = findIndex_from f ps 0"

fun filter_js :: "(json \<Rightarrow> exn + bool) \<Rightarrow> json list \<Rightarrow> exn + json list" where
  "filter_js f [] = Inr []"
| "filter_js f (p # ps) =
     (case f p of
        Inl e \<Rightarrow> Inl e
      | Inr b \<Rightarrow>
          (case filter_js f ps of
             Inl e \<Rightarrow> Inl e
           | Inr r \<Rightarrow> Inr (if b then p # r else r)))"

subsection \<open>Requests\<close>

text \<open>
  \<^verbatim>\<open>req.params.id\<close>, \<^verbatim>\<open>req.user?.id\<close> (set by the authentication middleware, absent
  for an anonymous caller), \<^verbatim>\<open>req.body\<close> and the path \<^verbatim>\<open>req.file.path\<close> of an uploaded
  file.
\<close>

record request =
  params_id :: string
  user :: "string option"
  body :: json
  req_file :: "string option"

definition not_authenticated :: response where
  "not_authenticated =
     \<lparr>status = 401, success = False,
      message = JStr ''You are not authenticated. Please Signin'',
      members = [], error = None\<rparr>"

subsection \<open>createPost\<close>

text \<open>\<^verbatim>\<open>posts.unshift(populatedPost)\<close> on the parsed cache value.\<close>

definition unshift :: "json \<Rightarrow> json \<Rightarrow> exn + json" where
  "unshift parsed x = (case array_of parsed of Inl e \<Rightarrow> Inl e | Inr xs \<Rightarrow> Inr (JArr (x # xs)))"

definition createPost :: "env \<Rightarrow> request \<Rightarrow> world \<Rightarrow> response \<times> world" where
  "createPost env req =
     try_catch
       (case user req of
          None \<Rightarrow> return_io not_authenticated
        | Some author' \<Rightarrow>
            if author' = [] then return_io not_authenticated
            else
            bind_io (lift_io (createPostValidation_parse (body req))) (\<lambda>parsedData.
            bind_io (categoryModel_findOne (p_category parsedData)) (\<lambda>found.
            bind_io (case found of
                       Some c \<Rightarrow> return_io c
                     | None \<Rightarrow> categoryModel_save env (p_category parsedData)) (\<lambda>categoryName.
            bind_io (case req_file req of
                       None \<Rightarrow> return_io (Inr None)
                     | Some path \<Rightarrow>
                         catch_io
                           (bind_io (uploadOnCloudinary_io env path) (\<lambda>secure_url.
                              return_io (Inr secure_url)))
                           (\<lambda>uploadError.
                              return_io (Inl \<lparr>status = 500, success = False,
                                 message = JStr ''Image upload to Cloudinary failed'',
                                 members = [], error = Some uploadError\<rparr>))) (\<lambda>uploaded.
            case uploaded of
              Inl early \<Rightarrow> return_io early
            | Inr imageUrl \<Rightarrow>
                bind_io (postModel_create env (p_content parsedData) author' imageUrl
                           (p_tags parsedData) (category_id categoryName)) (\<lambda>newPost.
                bind_io (postModel_findById_populated (post_id newPost)) (\<lambda>populatedPost.
                bind_io (client_get CACHE_KEY) (\<lambda>cachedPosts.
                bind_io (if truthy cachedPosts then
                           bind_io (lift_io (JSON_parse cachedPosts)) (\<lambda>parsed.
                           bind_io (lift_io (unshift parsed populatedPost)) (\<lambda>posts'.
                             client_set CACHE_KEY (JSON_stringify posts') None))
                         else return_io ()) (\<lambda>_.
                bind_io (client_del (PROFILE_CACHE_KEY author')) (\<lambda>_.
                bind_io (client_del (POSTS_CACHE_KEY author')) (\<lambda>_.
                  return_io \<lparr>status = 201, success = True,
                     message = JStr ''Post created successfully'',
                     members =
                       [(''data'',
                         JObj [(''content'', JStr (content newPost)),
                               (''author'', JStr (author newPost)),
                               (''image'', json_of_option imageUrl),
                               (''tags'', JArr (map JStr (tags newPost))),
                               (''category'', JStr (cat_name categoryName))])],
                     error = None\<rparr>)))))))))))
       (\<lambda>error.
          case error of
            ZodError msgs \<Rightarrow>
              \<lparr>status = 400, success = False, message = JArr (map JStr msgs),
               members = [], error = None\<rparr>
          | _ \<Rightarrow>
              \<lparr>status = 500, success = False, message = JStr ''Failed to create post'',
               members = [], error = Some error\<rparr>)"

subsection \<open>updatePost\<close>

definition updatePost :: "env \<Rightarrow> request \<Rightarrow> world \<Rightarrow> response \<times> world" where
  "updatePost env req =
     try_catch
       (case user req of
          None \<Rightarrow> return_io not_authenticated
        | Some userId \<Rightarrow>
            if userId = [] then return_io not_authenticated
            else
            bind_io (lift_io (updatePostValidation_parse (body req))) (\<lambda>parsedData.
            bind_io (postModel_findById env (params_id req)) (\<lambda>found.
            case found of
              None \<Rightarrow>
                return_io \<lparr>status = 404, success = False,
                   message = JStr ''Failed to update: Post not found'',
                   members = [], error = None\<rparr>
            | Some post \<Rightarrow>
                if author post \<noteq> userId then
                  return_io \<lparr>status = 403, success = False,
                     message = JStr ''You are not authorized to update this post'',
                     members = [], error = None\<rparr>
                else
                bind_io (postModel_findByIdAndUpdate env (params_id req) parsedData) (\<lambda>updated.
                case updated of
                  None \<Rightarrow>
                    return_io \<lparr>status = 404, success = False,
                       message = JStr ''Failed to update: Post not found'',
                       members = [], error = None\<rparr>
                | Some updatedPost \<Rightarrow>
                    bind_io (postModel_findById_populated (post_id updatedPost))
                      (\<lambda>populatedUpdatedPost.
                    bind_io (client_get CACHE_KEY) (\<lambda>cachedPosts.
                    bind_io (if truthy cachedPosts then
                               bind_io (lift_io (JSON_parse cachedPosts)) (\<lambda>parsed.
                               bind_io (lift_io (array_of parsed)) (\<lambda>posts'.
                               bind_io (lift_io (findIndex (id_is (params_id req)) posts'))
                                 (\<lambda>postIndex.
                                 if postIndex > - 1 then
                                   client_set CACHE_KEY
                                     (JSON_stringify
                                        (JArr (posts'[nat postIndex := populatedUpdatedPost])))
                                     None
                                 else return_io ())))
                             else return_io ()) (\<lambda>_.
                    bind_io (client_del (PROFILE_CACHE_KEY userId)) (\<lambda>_.
                    bind_io (client_del (POSTS_CACHE_KEY userId)) (\<lambda>_.
                      return_io \<lparr>status = 200, success = True,
                         message = JStr ''Post updated successfully'',
                         members = [(''data'', JObj [(''post'', populatedUpdatedPost)])],
                         error = None\<rparr>)))))))))
       (\<lambda>error.
          \<lparr>status = 500, success = False, message = JStr ''Failed to update post'',
           members = [], error = Some error\<rparr>)"

subsection \<open>deletePost\<close>

definition deletePost :: "env \<Rightarrow> request \<Rightarrow> world \<Rightarrow> response \<times> world" where
  "deletePost env req =
     try_catch
       (case user req of
          None \<Rightarrow> return_io not_authenticated
        | Some userId \<Rightarrow>
            if userId = [] then return_io not_authenticated
            else if \<not> isValid env (params_id req) then
              return_io \<lparr>status = 400, success = False, message = JStr ''Invalid post ID'',
                 members = [], error = None\<rparr>
            else
            bind_io (postModel_findById env (params_id req)) (\<lambda>found.
            case found of
              None \<Rightarrow>
                return_io \<lparr>status = 404, success = False,
                   message = JStr ''Failed to delete: Post not found'',
                   members = [], error = None\<rparr>
            | Some post \<Rightarrow>
                if author post \<noteq> userId then
                  return_io \<lparr>status = 403, success = False,
                     message = JStr ''You are not authorized to delete this post'',
                     members = [], error = None\<rparr>
                else
                bind_io (postModel_findByIdAndDelete env (params_id req)) (\<lambda>deleted.
                case deleted of
                  None \<Rightarrow>
                    return_io \<lparr>status = 404, success = False,
                       message = JStr ''Failed to delete: Post not found'',
                       members = [], error = None\<rparr>
                | Some _ \<Rightarrow>
                    bind_io (client_get CACHE_KEY) (\<lambda>cachedPosts.
                    bind_io (if truthy cachedPosts then
                               bind_io (lift_io (JSON_parse cachedPosts)) (\<lambda>parsed.
                               bind_io (lift_io (array_of parsed)) (\<lambda>posts'.
                               bind_io (lift_io (filter_js (id_is_not (params_id req)) posts'))
                                 (\<lambda>filteredPosts.
                                 client_set CACHE_KEY (JSON_stringify (JArr filteredPosts))
                                   None)))
                             else return_io ()) (\<lambda>_.
                    bind_io (client_del (PROFILE_CACHE_KEY userId)) (\<lambda>_.
                    bind_io (client_del (POSTS_CACHE_KEY userId)) (\<lambda>_.
                      return_io \<lparr>status = 200, success = True,
                         message = JStr ''Post deleted successfully'',
                         members = [(''deletedPostId'', JStr (params_id req))],
                         error = None\<rparr>)))))))
       (\<lambda>error.
          \<lparr>status = 500, success = False, message = JStr ''Failed to delete post'',
           members = [], error = Some error\<rparr>)"

subsection \<open>Reasoning about a run that returns normally\<close>

text \<open>
  \<open>wp m Q w\<close>: if \<open>m\<close>, started in \<open>w\<close>, returns a value and does not raise, then \<open>Q\<close>
  holds of the value and the state reached. It is used to follow a controller call
  by call.
\<close>

definition wp :: "'a io \<Rightarrow> ('a \<Rightarrow> world \<Rightarrow> bool) \<Rightarrow> world \<Rightarrow> bool" where
  "wp m Q w = (case m w of (Inl e, w') \<Rightarrow> True | (Inr x, w') \<Rightarrow> Q x w')"

subsection \<open>A small instance\<close>

text \<open>
  Two users, one category and two posts; a cache that is empty, one that holds the
  listing, and clients that fail. The theorems below are instantiated on them.
\<close>

definition is_hex :: "char \<Rightarrow> bool" where
  "is_hex c = (c \<in> set ''0123456789abcdefABCDEF'')"

definition hex24 :: "string \<Rightarrow> bool" where
  "hex24 s = (length s = 24 \<and> list_all is_hex s)"

text \<open>An ObjectId prints its twenty-four hexadecimal digits in lower case.\<close>

definition lower_hex :: "char \<Rightarrow> char" where
  "lower_hex c =
     (if c = CHR ''A'' then CHR ''a''
      else if c = CHR ''B'' then CHR ''b''
      else if c = CHR ''C'' then CHR ''c''
      else if c = CHR ''D'' then CHR ''d''
      else if c = CHR ''E'' then CHR ''e''
      else if c = CHR ''F'' then CHR ''f''
      else c)"

definition alice_id :: string where
  "alice_id = ''aaaaaaaaaaaaaaaaaaaaaaaa''"

definition bob_id :: string where
  "bob_id = ''bbbbbbbbbbbbbbbbbbbbbbbb''"

definition post1_id :: string where
  "post1_id = ''000000000000000000000001''"

definition post2_id :: string where
  "post2_id = ''000000000000000000000002''"

definition post1 :: post where
  "post1 = \<lparr>post_id = post1_id, content = ''first'', author = alice_id, image = None,
            tags = [], category = ''cccccccccccccccccccccc01'', createdAt = 10\<rparr>"

definition post2 :: post where
  "post2 = \<lparr>post_id = post2_id, content = ''second'', author = bob_id, image = None,
            tags = [''x''], category = ''cccccccccccccccccccccc01'', createdAt = 20\<rparr>"

definition demo_db :: db where
  "demo_db =
     \<lparr>posts = [post1, post2],
      categories = [\<lparr>category_id = ''cccccccccccccccccccccc01'', cat_name = ''news''\<rparr>],
      users = [\<lparr>user_id = alice_id, username = ''alice'', fullname = ''Alice'',
                profilePicture = ''a.png''\<rparr>,
               \<lparr>user_id = bob_id, username = ''bob'', fullname = ''Bob'',
                profilePicture = ''b.png''\<rparr>]\<rparr>"

definition demo_listing :: "json list" where
  "demo_listing = [populated demo_db post2, populated demo_db post1]"

definition cold_world :: world where
  "cold_world = \<lparr>store = demo_db, cache = \<lparr>kv = Map.empty, fault = (\<lambda>_. None)\<rparr>, log = []\<rparr>"

definition warm_world :: world where
  "warm_world =
     \<lparr>store = demo_db,
      cache = \<lparr>kv = [''posts:all'' \<mapsto> \<lparr>val = JsonText (JArr demo_listing), ttl = Some 43200\<rparr>],
               fault = (\<lambda>_. None)\<rparr>,
      log = []\<rparr>"

definition get_down_world :: world where
  "get_down_world =
     \<lparr>store = demo_db,
      cache = \<lparr>kv = Map.empty, fault = (\<lambda>_. Some ''ECONNREFUSED'')\<rparr>,
      log = []\<rparr>"

definition set_down_world :: world where
  "set_down_world =
     \<lparr>store = demo_db,
      cache = \<lparr>kv = Map.empty,
               fault = (\<lambda>c. if c = OpSet then Some ''ECONNRESET'' else None)\<rparr>,
      log = []\<rparr>"

definition demo_env :: env where
  "demo_env =
     \<lparr>new_post_id = ''000000000000000000000003'',
      new_category_id = ''cccccccccccccccccccccc02'',
      now = 30,
      uploadOnCloudinary = (\<lambda>_. Inl (UploadError ''Request Timeout'')),
      isValid = hex24,
      castObjectId = map lower_hex\<rparr>"

definition hello_req :: request where
  "hello_req =
     \<lparr>params_id = [], user = Some alice_id,
      body = JObj [(''content'', JStr ''  hello ''), (''category'', JStr ''tech'')],
      req_file = None\<rparr>"

definition hello_img_req :: request where
  "hello_img_req = hello_req\<lparr>req_file := Some ''uploads/pic.png''\<rparr>"

definition blank_req :: request where
  "blank_req =
     \<lparr>params_id = [], user = Some alice_id,
      body = JObj [(''content'', JStr ''   ''), (''category'', JStr ''tech'')],
      req_file = None\<rparr>"

definition no_content_update_req :: request where
  "no_content_update_req =
     \<lparr>params_id = post1_id, user = Some alice_id, body = JObj [], req_file = None\<rparr>"

definition edit_req :: request where
  "edit_req =
     \<lparr>params_id = post1_id, user = Some alice_id,
      body = JObj [(''content'', JStr '' edited '')], req_file = None\<rparr>"

definition delete_req :: request where
  "delete_req = \<lparr>params_id = post1_id, user = Some alice_id, body = JNull, req_file = None\<rparr>"

definition intruder_req :: request where
  "intruder_req = \<lparr>params_id = post1_id, user = Some bob_id, body = JObj [], req_file = None\<rparr>"

definition intruder_edit_req :: request where
  "intruder_edit_req = intruder_req\<lparr>body := JObj [(''content'', JStr ''mine now'')]\<rparr>"

definition bad_id_req :: request where
  "bad_id_req = \<lparr>params_id = ''not-an-id'', user = Some alice_id, body = JNull, req_file = None\<rparr>"

definition missing_req :: request where
  "missing_req =
     \<lparr>params_id = ''000000000000000000000009'', user = Some alice_id, body = JNull,
      req_file = None\<rparr>"

text \<open>
  A post whose identifier has a letter among its digits, cached, and requests that
  spell the identifier in upper case.
\<close>

definition post_a_id :: string where
  "post_a_id = ''00000000000000000000000a''"

definition post_a :: post where
  "post_a = \<lparr>post_id = post_a_id, content = ''old'', author = alice_id, image = None,
             tags = [], category = ''cccccccccccccccccccccc01'', createdAt = 5\<rparr>"

definition letter_db :: db where
  "letter_db = demo_db\<lparr>posts := [post_a]\<rparr>"

definition letter_world :: world where
  "letter_world =
     \<lparr>store = letter_db,
      cache = \<lparr>kv = [''posts:all'' \<mapsto>
                      \<lparr>val = JsonText (JArr [populated letter_db post_a]), ttl = Some 43200\<rparr>],
               fault = (\<lambda>_. None)\<rparr>,
      log = []\<rparr>"

definition upper_edit_req :: request where
  "upper_edit_req =
     \<lparr>params_id = ''00000000000000000000000A'', user = Some alice_id,
      body = JObj [(''content'', JStr '' edited '')], req_file = None\<rparr>"

definition upper_delete_req :: request where
  "upper_delete_req =
     \<lparr>params_id = ''00000000000000000000000A'', user = Some alice_id, body = JNull,
      req_file = None\<rparr>"

section \<open>Properties\<close>

subsection \<open>Helper lemmas\<close>

lemmas io_defs =
  return_io_def bind_io_def lift_io_def try_catch_def catch_io_def

lemmas demo_defs =
  cold_world_def warm_world_def demo_env_def demo_db_def demo_listing_def
  post1_def post2_def post1_id_def post2_id_def alice_id_def bob_id_def

lemmas client_defs = client_get_def client_set_def client_del_def

lemmas store_defs =
  categoryModel_findOne_def categoryModel_save_def postModel_create_def
  postModel_findById_populated_def postModel_findById_def postModel_findByIdAndUpdate_def
  postModel_findByIdAndDelete_def postModel_find_sorted_populated_def
  uploadOnCloudinary_io_def

lemmas validation_defs =
  createPostValidation_parse_def updatePostValidation_parse_def zod_string_min1_trim_def
  zod_string_array_optional_def issues_of_def item_issue_def item_string_def typeName_def
  trim_def is_ws_def

lemmas key_defs = CACHE_KEY_def PROFILE_CACHE_KEY_def POSTS_CACHE_KEY_def

lemmas eval_defs =
  io_defs client_defs store_defs validation_defs key_defs demo_defs
  truthy_def JSON_parse_def JSON_stringify_def unshift_def array_of_def new_post_def
  populated_def populated_by_id_def populate_author_def populate_category_def
  json_of_option_def
  member_id_def id_is_def id_is_not_def findIndex_def hex24_def is_hex_def lower_hex_def
  emit_def
  not_authenticated_def

lemma demo_cast:
  "castObjectId demo_env post1_id = post1_id"
  "castObjectId demo_env ''000000000000000000000009'' = ''000000000000000000000009''"
  by (simp_all add: demo_env_def post1_id_def lower_hex_def)

lemma store_emit [simp]: "store (emit ev w) = store w"
  by (simp add: emit_def)

lemma cache_emit [simp]: "cache (emit ev w) = cache w"
  by (simp add: emit_def)

lemma log_emit [simp]: "log (emit ev w) = log w @ [ev]"
  by (simp add: emit_def)

lemma newest_first_sorted:
  "sorted_wrt (\<lambda>a b. createdAt b \<le> createdAt a) (newest_first ps)"
proof -
  have "sorted (map (\<lambda>p. - int (createdAt p)) (newest_first ps))"
    unfolding newest_first_def by (rule sorted_sort_key)
  then show ?thesis
    by (simp add: sorted_map)
qed

lemma newest_first_mset: "mset (newest_first ps) = mset ps"
  by (simp add: newest_first_def)

lemma getAllPosts_hit:
  assumes "fault (cache w) OpGet = None"
    and "kv (cache w) CACHE_KEY = Some e"
    and "JSON_parse (Some (val e)) = Inr v"
  shows "getAllPosts w =
     (\<lparr>status = 200, success = True,
       message = JStr ''All posts retrieved successfully'',
       members = [(''data'', v)], error = None\<rparr>,
      emit (Cache_get CACHE_KEY) w)"
  using assms
  by (cases "val e")
     (simp_all add: getAllPosts_def io_defs client_get_def truthy_def JSON_parse_def)

lemma getAllPosts_miss:
  assumes "fault (cache w) OpGet = None"
    and "kv (cache w) CACHE_KEY = None"
    and "fault (cache w) OpSet = None"
  shows "getAllPosts w =
     (\<lparr>status = 200, success = True,
       message = JStr ''All posts retrieved successfully'',
       members = [(''data'', JArr (map (populated (store w)) (newest_first (posts (store w)))))],
       error = None\<rparr>,
      emit (Cache_set CACHE_KEY
              (JSON_stringify (JArr (map (populated (store w)) (newest_first (posts (store w))))))
              (Some 43200))
        ((emit (Db Post_find) (emit (Cache_get CACHE_KEY) w))
           \<lparr>cache := (cache w)\<lparr>kv := (kv (cache w))(CACHE_KEY \<mapsto>
               \<lparr>val = JSON_stringify
                        (JArr (map (populated (store w)) (newest_first (posts (store w))))),
                ttl = Some 43200\<rparr>)\<rparr>\<rparr>))"
  using assms
  by (simp add: getAllPosts_def io_defs client_get_def client_set_def truthy_def
        postModel_find_sorted_populated_def cacheTTL_def)

subsection \<open>Listing: read-through cache\<close>

lemma demo_newest_first: "newest_first [post1, post2] = [post2, post1]"
  by (simp add: newest_first_def post1_def post2_def)

text \<open>
  Claim C1. For a listing request on a working cache: when the cache holds under
  \<^verbatim>\<open>posts:all\<close> a string that deserializes to \<open>v\<close>, the response is 200 with exactly
  \<open>v\<close> as data, the store and the cache are as before and the only call made is the
  cache read (no store read). When the cache has no entry, the store is queried for
  all posts, newest first (a permutation of the stored posts, sorted by creation time
  descending), with author and category resolved; the serialized result is written
  under \<^verbatim>\<open>posts:all\<close> with a TTL of 43200 seconds, and the same result is returned.
\<close>

theorem getAllPosts_read_through:
  assumes "fault (cache w) OpGet = None"
  shows "(\<forall>e v. kv (cache w) ''posts:all'' = Some e \<and> JSON_parse (Some (val e)) = Inr v \<longrightarrow>
            fst (getAllPosts w) =
              \<lparr>status = 200, success = True,
               message = JStr ''All posts retrieved successfully'',
               members = [(''data'', v)], error = None\<rparr> \<and>
            store (snd (getAllPosts w)) = store w \<and>
            cache (snd (getAllPosts w)) = cache w \<and>
            log (snd (getAllPosts w)) = log w @ [Cache_get ''posts:all''])
       \<and> (kv (cache w) ''posts:all'' = None \<and> fault (cache w) OpSet = None \<longrightarrow>
            (let ps = newest_first (posts (store w));
                 allPosts = JArr (map (populated (store w)) ps)
             in mset ps = mset (posts (store w)) \<and>
                sorted_wrt (\<lambda>a b. createdAt b \<le> createdAt a) ps \<and>
                fst (getAllPosts w) =
                  \<lparr>status = 200, success = True,
                   message = JStr ''All posts retrieved successfully'',
                   members = [(''data'', allPosts)], error = None\<rparr> \<and>
                kv (cache (snd (getAllPosts w))) ''posts:all'' =
                  Some \<lparr>val = JSON_stringify allPosts, ttl = Some 43200\<rparr> \<and>
                store (snd (getAllPosts w)) = store w \<and>
                log (snd (getAllPosts w)) =
                  log w @ [Cache_get ''posts:all'', Db Post_find,
                           Cache_set ''posts:all'' (JSON_stringify allPosts) (Some 43200)]))"
proof (intro conjI allI impI)
  fix e v
  assume h: "kv (cache w) ''posts:all'' = Some e \<and> JSON_parse (Some (val e)) = Inr v"
  then have h1: "kv (cache w) CACHE_KEY = Some e" and h2: "JSON_parse (Some (val e)) = Inr v"
    by (simp_all add: CACHE_KEY_def)
  note * = getAllPosts_hit [OF assms h1 h2]
  show "fst (getAllPosts w) =
              \<lparr>status = 200, success = True,
               message = JStr ''All posts retrieved successfully'',
               members = [(''data'', v)], error = None\<rparr>"
    by (simp add: *)
  show "store (snd (getAllPosts w)) = store w" by (simp add: *)
  show "cache (snd (getAllPosts w)) = cache w" by (simp add: *)
  show "log (snd (getAllPosts w)) = log w @ [Cache_get ''posts:all'']"
    by (simp add: * CACHE_KEY_def)
next
  assume h: "kv (cache w) ''posts:all'' = None \<and> fault (cache w) OpSet = None"
  then have h1: "kv (cache w) CACHE_KEY = None" and h2: "fault (cache w) OpSet = None"
    by (simp_all add: CACHE_KEY_def)
  note * = getAllPosts_miss [OF assms h1 h2]
  show "let ps = newest_first (posts (store w));
                 allPosts = JArr (map (populated (store w)) ps)
             in mset ps = mset (posts (store w)) \<and>
                sorted_wrt (\<lambda>a b. createdAt b \<le> createdAt a) ps \<and>
                fst (getAllPosts w) =
                  \<lparr>status = 200, success = True,
                   message = JStr ''All posts retrieved successfully'',
                   members = [(''data'', allPosts)], error = None\<rparr> \<and>
                kv (cache (snd (getAllPosts w))) ''posts:all'' =
                  Some \<lparr>val = JSON_stringify allPosts, ttl = Some 43200\<rparr> \<and>
                store (snd (getAllPosts w)) = store w \<and>
                log (snd (getAllPosts w)) =
                  log w @ [Cache_get ''posts:all'', Db Post_find,
                           Cache_set ''posts:all'' (JSON_stringify allPosts) (Some 43200)]"
    unfolding Let_def
    by (simp add: * newest_first_sorted newest_first_mset CACHE_KEY_def emit_def)
qed

theorem getAllPosts_read_through_witness:
  "fst (getAllPosts warm_world) =
     \<lparr>status = 200, success = True, message = JStr ''All posts retrieved successfully'',
      members = [(''data'', JArr demo_listing)], error = None\<rparr> \<and>
   log (snd (getAllPosts warm_world)) = [Cache_get ''posts:all''] \<and>
   fst (getAllPosts cold_world) =
     \<lparr>status = 200, success = True, message = JStr ''All posts retrieved successfully'',
      members = [(''data'', JArr demo_listing)], error = None\<rparr> \<and>
   kv (cache (snd (getAllPosts cold_world))) ''posts:all'' =
     Some \<lparr>val = JsonText (JArr demo_listing), ttl = Some 43200\<rparr> \<and>
   log (snd (getAllPosts cold_world)) =
     [Cache_get ''posts:all'', Db Post_find,
      Cache_set ''posts:all'' (JsonText (JArr demo_listing)) (Some 43200)]"
  using getAllPosts_read_through [of warm_world] getAllPosts_read_through [of cold_world]
  by (simp add: warm_world_def cold_world_def JSON_parse_def JSON_stringify_def Let_def
        demo_newest_first demo_listing_def demo_db_def)

subsection \<open>Listing: a failing cache\<close>

lemma getAllPosts_get_fails:
  assumes "fault (cache w) OpGet = Some m"
  shows "getAllPosts w =
     (\<lparr>status = 500, success = False, message = JStr ''Failed to get all posts'',
       members = [], error = Some (CacheError m)\<rparr>,
      emit (Cache_get CACHE_KEY) w)"
  using assms by (simp add: getAllPosts_def io_defs client_get_def)

lemma getAllPosts_set_fails:
  assumes "fault (cache w) OpGet = None"
    and "kv (cache w) CACHE_KEY = None"
    and "fault (cache w) OpSet = Some m"
  shows "getAllPosts w =
     (\<lparr>status = 500, success = False, message = JStr ''Failed to get all posts'',
       members = [], error = Some (CacheError m)\<rparr>,
      emit (Cache_set CACHE_KEY
              (JSON_stringify (JArr (map (populated (store w)) (newest_first (posts (store w))))))
              (Some 43200))
        (emit (Db Post_find) (emit (Cache_get CACHE_KEY) w)))"
  using assms
  by (simp add: getAllPosts_def io_defs client_get_def client_set_def truthy_def
        postModel_find_sorted_populated_def cacheTTL_def)

text \<open>
  Claim C5, as stated, fails: with a cache whose reads raise and a store that holds
  two posts, the listing answers 500 with the cache error and never reads the store.
\<close>

theorem getAllPosts_cache_failure_counterexample:
  "fault (cache get_down_world) OpGet = Some ''ECONNREFUSED'' \<and>
   posts (store get_down_world) = [post1, post2] \<and>
   fst (getAllPosts get_down_world) =
     \<lparr>status = 500, success = False, message = JStr ''Failed to get all posts'',
      members = [], error = Some (CacheError ''ECONNREFUSED'')\<rparr> \<and>
   log (snd (getAllPosts get_down_world)) = [Cache_get ''posts:all'']"
proof -
  have "fault (cache get_down_world) OpGet = Some ''ECONNREFUSED''"
    by (simp add: get_down_world_def)
  from getAllPosts_get_fails [OF this] show ?thesis
    by (simp add: CACHE_KEY_def) (simp add: get_down_world_def demo_db_def)
qed

text \<open>
  Claim C5, amended. A failure of the cache is fatal for the listing request. When the
  cache read raises, the response is 500 \<^verbatim>\<open>Failed to get all posts\<close> with the message of
  the cache error, and the store is not read. When the read finds no entry and the
  cache write raises, the store has been read, nothing is cached, and the response is
  again 500 with the message of the cache error instead of the listing.
\<close>

theorem getAllPosts_cache_failure_is_fatal:
  "(\<forall>m. fault (cache w) OpGet = Some m \<longrightarrow>
      fst (getAllPosts w) =
        \<lparr>status = 500, success = False, message = JStr ''Failed to get all posts'',
         members = [], error = Some (CacheError m)\<rparr> \<and>
      store (snd (getAllPosts w)) = store w \<and>
      cache (snd (getAllPosts w)) = cache w \<and>
      log (snd (getAllPosts w)) = log w @ [Cache_get ''posts:all''])
   \<and> (\<forall>m. fault (cache w) OpGet = None \<and> kv (cache w) ''posts:all'' = None \<and>
          fault (cache w) OpSet = Some m \<longrightarrow>
      fst (getAllPosts w) =
        \<lparr>status = 500, success = False, message = JStr ''Failed to get all posts'',
         members = [], error = Some (CacheError m)\<rparr> \<and>
      store (snd (getAllPosts w)) = store w \<and>
      cache (snd (getAllPosts w)) = cache w \<and>
      log (snd (getAllPosts w)) =
        log w @ [Cache_get ''posts:all'', Db Post_find,
                 Cache_set ''posts:all''
                   (JSON_stringify
                      (JArr (map (populated (store w)) (newest_first (posts (store w))))))
                   (Some 43200)])"
proof (intro conjI allI impI)
  fix m
  assume "fault (cache w) OpGet = Some m"
  note * = getAllPosts_get_fails [OF this]
  show "fst (getAllPosts w) =
        \<lparr>status = 500, success = False, message = JStr ''Failed to get all posts'',
         members = [], error = Some (CacheError m)\<rparr>"
    by (simp add: *)
  show "store (snd (getAllPosts w)) = store w" by (simp add: *)
  show "cache (snd (getAllPosts w)) = cache w" by (simp add: *)
  show "log (snd (getAllPosts w)) = log w @ [Cache_get ''posts:all'']"
    by (simp add: * CACHE_KEY_def)
next
  fix m
  assume "fault (cache w) OpGet = None \<and> kv (cache w) ''posts:all'' = None \<and>
          fault (cache w) OpSet = Some m"
  then have h1: "fault (cache w) OpGet = None" and h2: "kv (cache w) CACHE_KEY = None"
    and h3: "fault (cache w) OpSet = Some m"
    by (simp_all add: CACHE_KEY_def)
  note * = getAllPosts_set_fails [OF h1 h2 h3]
  show "fst (getAllPosts w) =
        \<lparr>status = 500, success = False, message = JStr ''Failed to get all posts'',
         members = [], error = Some (CacheError m)\<rparr>"
    by (simp add: *)
  show "store (snd (getAllPosts w)) = store w" by (simp add: *)
  show "cache (snd (getAllPosts w)) = cache w" by (simp add: *)
  show "log (snd (getAllPosts w)) =
        log w @ [Cache_get ''posts:all'', Db Post_find,
                 Cache_set ''posts:all''
                   (JSON_stringify
                      (JArr (map (populated (store w)) (newest_first (posts (store w))))))
                   (Some 43200)]"
    by (simp add: * CACHE_KEY_def)
qed

theorem getAllPosts_cache_failure_is_fatal_witness:
  "status (fst (getAllPosts get_down_world)) = 500 \<and>
   error (fst (getAllPosts get_down_world)) = Some (CacheError ''ECONNREFUSED'') \<and>
   log (snd (getAllPosts get_down_world)) = [Cache_get ''posts:all''] \<and>
   status (fst (getAllPosts set_down_world)) = 500 \<and>
   error (fst (getAllPosts set_down_world)) = Some (CacheError ''ECONNRESET'') \<and>
   kv (cache (snd (getAllPosts set_down_world))) ''posts:all'' = None \<and>
   log (snd (getAllPosts set_down_world)) =
     [Cache_get ''posts:all'', Db Post_find,
      Cache_set ''posts:all'' (JsonText (JArr demo_listing)) (Some 43200)]"
  using getAllPosts_cache_failure_is_fatal [of get_down_world]
    getAllPosts_cache_failure_is_fatal [of set_down_world]
  by (simp add: get_down_world_def set_down_world_def JSON_stringify_def
        demo_newest_first demo_listing_def demo_db_def)

subsection \<open>Creation: validation and upload failure\<close>

lemma createPost_invalid_body:
  assumes "user req = Some u" and "u \<noteq> []"
    and "createPostValidation_parse (body req) = Inl (ZodError msgs)"
  shows "createPost env req w =
     (\<lparr>status = 400, success = False, message = JArr (map JStr msgs), members = [],
       error = None\<rparr>, w)"
  using assms by (simp add: createPost_def io_defs)

lemma updatePost_invalid_body:
  assumes "user req = Some u" and "u \<noteq> []"
    and "updatePostValidation_parse (body req) = Inl e"
  shows "updatePost env req w =
     (\<lparr>status = 500, success = False, message = JStr ''Failed to update post'', members = [],
       error = Some e\<rparr>, w)"
  using assms by (simp add: updatePost_def io_defs)

lemma createPost_upload_fails:
  assumes "user req = Some u" and "u \<noteq> []"
    and "createPostValidation_parse (body req) = Inr pd"
    and "find (\<lambda>c. cat_name c = p_category pd) (categories (store w)) = None"
    and "req_file req = Some path"
    and "uploadOnCloudinary env path = Inl e"
  shows "createPost env req w =
     (\<lparr>status = 500, success = False, message = JStr ''Image upload to Cloudinary failed'',
       members = [], error = Some e\<rparr>,
      emit (Upload path)
        (emit (Db (Category_save (p_category pd)))
           ((emit (Db (Category_findOne (p_category pd))) w)
              \<lparr>store := (store w)\<lparr>categories := categories (store w) @
                   [\<lparr>category_id = new_category_id env, cat_name = p_category pd\<rparr>]\<rparr>\<rparr>)))"
  using assms
  by (simp add: createPost_def io_defs categoryModel_findOne_def categoryModel_save_def
        uploadOnCloudinary_io_def emit_def)

text \<open>
  Claim C10. A create request by an authenticated caller whose body passes validation,
  naming a category the store does not have and carrying a file whose upload raises,
  is answered 500 \<^verbatim>\<open>Image upload to Cloudinary failed\<close> with the message of the upload
  error. No post is persisted and no post call reaches the store, but the category
  saved before the upload stays: the categories afterwards are the old ones followed by
  the new record.
\<close>

theorem createPost_upload_failure_leaves_category:
  assumes "user req = Some u" and "u \<noteq> []"
    and "createPostValidation_parse (body req) = Inr pd"
    and "find (\<lambda>c. cat_name c = p_category pd) (categories (store w)) = None"
    and "req_file req = Some path"
    and "uploadOnCloudinary env path = Inl e"
  shows "fst (createPost env req w) =
           \<lparr>status = 500, success = False,
            message = JStr ''Image upload to Cloudinary failed'',
            members = [], error = Some e\<rparr> \<and>
         posts (store (snd (createPost env req w))) = posts (store w) \<and>
         categories (store (snd (createPost env req w))) =
           categories (store w) @
             [\<lparr>category_id = new_category_id env, cat_name = p_category pd\<rparr>] \<and>
         log (snd (createPost env req w)) =
           log w @ [Db (Category_findOne (p_category pd)), Db (Category_save (p_category pd)),
                    Upload path]"
  by (simp add: createPost_upload_fails [OF assms])

lemma hello_parse:
  "createPostValidation_parse (body hello_img_req) =
     Inr \<lparr>p_content = ''hello'', p_tags = None, p_category = ''tech''\<rparr>"
  by (simp add: hello_img_req_def hello_req_def validation_defs)

theorem createPost_upload_failure_leaves_category_witness:
  "fst (createPost demo_env hello_img_req cold_world) =
     \<lparr>status = 500, success = False, message = JStr ''Image upload to Cloudinary failed'',
      members = [], error = Some (UploadError ''Request Timeout'')\<rparr> \<and>
   posts (store (snd (createPost demo_env hello_img_req cold_world))) = [post1, post2] \<and>
   categories (store (snd (createPost demo_env hello_img_req cold_world))) =
     [\<lparr>category_id = ''cccccccccccccccccccccc01'', cat_name = ''news''\<rparr>,
      \<lparr>category_id = ''cccccccccccccccccccccc02'', cat_name = ''tech''\<rparr>]"
  using createPost_upload_failure_leaves_category
    [of hello_img_req alice_id "\<lparr>p_content = ''hello'', p_tags = None, p_category = ''tech''\<rparr>"
        cold_world "''uploads/pic.png''" demo_env "UploadError ''Request Timeout''"]
  by (simp add: hello_parse)
     (simp add: hello_img_req_def hello_req_def cold_world_def demo_db_def demo_env_def
        alice_id_def)

text \<open>
  Claim C8 holds for creation and fails for update. A body without \<^verbatim>\<open>content\<close> sent
  to \<^verbatim>\<open>updatePost\<close> by the post's author raises a ZodError that the handler of
  \<^verbatim>\<open>updatePost\<close> does not tell apart: the response is 500 \<^verbatim>\<open>Failed to update post\<close>.
  The same kind of body sent to \<^verbatim>\<open>createPost\<close> is answered 400 with the messages of
  the issues. Neither touches the store.
\<close>

theorem updatePost_invalid_body_is_500:
  "updatePost demo_env no_content_update_req warm_world =
     (\<lparr>status = 500, success = False, message = JStr ''Failed to update post'',
       members = [], error = Some (ZodError [''Required''])\<rparr>, warm_world) \<and>
   createPost demo_env (no_content_update_req\<lparr>body := JObj [(''category'', JStr ''tech'')]\<rparr>)
       warm_world =
     (\<lparr>status = 400, success = False, message = JArr [JStr ''Required''],
       members = [], error = None\<rparr>, warm_world)"
proof -
  have u: "updatePostValidation_parse (body no_content_update_req) = Inl (ZodError [''Required''])"
    by (simp add: no_content_update_req_def validation_defs)
  have c: "createPostValidation_parse
             (body (no_content_update_req\<lparr>body := JObj [(''category'', JStr ''tech'')]\<rparr>)) =
           Inl (ZodError [''Required''])"
    by (simp add: validation_defs)
  have a: "user no_content_update_req = Some alice_id" "alice_id \<noteq> []"
    by (simp_all add: no_content_update_req_def alice_id_def)
  show ?thesis
    using updatePost_invalid_body [OF a u, of demo_env warm_world]
      createPost_invalid_body [of "no_content_update_req\<lparr>body := JObj [(''category'', JStr ''tech'')]\<rparr>"
         alice_id "[''Required'']" demo_env warm_world] a c
    by simp
qed

subsection \<open>Following a controller call by call\<close>

lemma wp_return [simp]: "wp (return_io x) Q w = Q x w"
  by (simp add: wp_def return_io_def)

lemma wp_bind [simp]: "wp (bind_io m f) Q w = wp m (\<lambda>x. wp (f x) Q) w"
  by (simp add: wp_def bind_io_def split: prod.splits sum.splits)

lemma wp_lift [simp]: "wp (lift_io r) Q w = (\<forall>x. r = Inr x \<longrightarrow> Q x w)"
  by (cases r) (simp_all add: wp_def lift_io_def)

lemma wp_client_get [simp]:
  "wp (client_get k) Q w =
     (fault (cache w) OpGet = None \<longrightarrow>
        Q (map_option val (kv (cache w) k)) (emit (Cache_get k) w))"
  by (simp add: wp_def client_get_def split: option.splits)

lemma wp_client_set [simp]:
  "wp (client_set k v ex) Q w =
     (fault (cache w) OpSet = None \<longrightarrow>
        Q () (emit (Cache_set k v ex)
               (w\<lparr>cache := (cache w)\<lparr>kv := (kv (cache w))(k \<mapsto> \<lparr>val = v, ttl = ex\<rparr>)\<rparr>\<rparr>)))"
  by (simp add: wp_def client_set_def split: option.splits)

lemma wp_client_del [simp]:
  "wp (client_del k) Q w =
     (fault (cache w) OpDel = None \<longrightarrow>
        Q () (emit (Cache_del k) (w\<lparr>cache := (cache w)\<lparr>kv := (kv (cache w))(k := None)\<rparr>\<rparr>)))"
  by (simp add: wp_def client_del_def split: option.splits)

lemma wp_categoryModel_findOne [simp]:
  "wp (categoryModel_findOne n) Q w =
     Q (find (\<lambda>c. cat_name c = n) (categories (store w))) (emit (Db (Category_findOne n)) w)"
  by (simp add: wp_def categoryModel_findOne_def)

lemma wp_categoryModel_save [simp]:
  "wp (categoryModel_save env n) Q w =
     Q \<lparr>category_id = new_category_id env, cat_name = n\<rparr>
       (emit (Db (Category_save n))
         (w\<lparr>store := (store w)\<lparr>categories :=
              categories (store w) @ [\<lparr>category_id = new_category_id env, cat_name = n\<rparr>]\<rparr>\<rparr>))"
  by (simp add: wp_def categoryModel_save_def)

lemma wp_postModel_create [simp]:
  "wp (postModel_create env c a img t cat) Q w =
     Q (new_post env c a img t cat)
       (emit (Db (Post_create (new_post_id env)))
        (w\<lparr>store := (store w)\<lparr>posts := posts (store w) @ [new_post env c a img t cat]\<rparr>\<rparr>))"
  by (simp add: wp_def postModel_create_def)

lemma wp_postModel_findById_populated [simp]:
  "wp (postModel_findById_populated i) Q w =
     Q (populated_by_id (store w) i) (emit (Db (Post_findById i)) w)"
  by (simp add: wp_def postModel_findById_populated_def)

lemma wp_postModel_findById [simp]:
  "wp (postModel_findById env i) Q w =
     (isValid env i \<longrightarrow>
        Q (find (\<lambda>p. post_id p = castObjectId env i) (posts (store w))) (emit (Db (Post_findById i)) w))"
  by (simp add: wp_def postModel_findById_def)

lemma wp_postModel_findByIdAndUpdate [simp]:
  "wp (postModel_findByIdAndUpdate env i c) Q w =
     (isValid env i \<longrightarrow>
        Q (map_option (\<lambda>p. p\<lparr>content := c\<rparr>) (find (\<lambda>p. post_id p = castObjectId env i) (posts (store w))))
          (emit (Db (Post_findByIdAndUpdate i))
            (w\<lparr>store := (store w)\<lparr>posts :=
                update_first (\<lambda>p. post_id p = castObjectId env i) (\<lambda>p. p\<lparr>content := c\<rparr>) (posts (store w))\<rparr>\<rparr>)))"
  by (simp add: wp_def postModel_findByIdAndUpdate_def)

lemma wp_postModel_findByIdAndDelete [simp]:
  "wp (postModel_findByIdAndDelete env i) Q w =
     (isValid env i \<longrightarrow>
        Q (find (\<lambda>p. post_id p = castObjectId env i) (posts (store w)))
          (emit (Db (Post_findByIdAndDelete i))
            (w\<lparr>store := (store w)\<lparr>posts :=
                delete_first (\<lambda>p. post_id p = castObjectId env i) (posts (store w))\<rparr>\<rparr>)))"
  by (simp add: wp_def postModel_findByIdAndDelete_def)

lemma wp_catch_upload [simp]:
  "wp (catch_io (bind_io (uploadOnCloudinary_io env path) (\<lambda>u. return_io (f u))) h) Q w =
     (case uploadOnCloudinary env path of
        Inl e \<Rightarrow> wp (h e) Q (emit (Upload path) w)
      | Inr u \<Rightarrow> Q (f u) (emit (Upload path) w))"
  by (simp add: wp_def catch_io_def bind_io_def uploadOnCloudinary_io_def return_io_def
      split: sum.splits prod.splits)

text \<open>
  A response with status \<open>s\<close> that no handler produces came out of the body of the
  \<^verbatim>\<open>try\<close>, so what holds after every normal run of the body with that status holds of
  the controller's result.
\<close>

lemma try_catch_wp:
  assumes "status (fst (try_catch m h w)) = s"
    and "\<And>e. status (h e) \<noteq> s"
    and "wp m (\<lambda>r w'. status r = s \<longrightarrow> P r w') w"
  shows "P (fst (try_catch m h w)) (snd (try_catch m h w))"
  using assms by (auto simp: wp_def try_catch_def split: prod.splits sum.splits)

subsection \<open>Invalidation of the per-user keys\<close>

lemma createPost_invalidates:
  assumes "status (fst (createPost env req w)) = 201" and "user req = Some u"
  shows "kv (cache (snd (createPost env req w))) (PROFILE_CACHE_KEY u) = None \<and>
         kv (cache (snd (createPost env req w))) (POSTS_CACHE_KEY u) = None \<and>
         last (butlast (log (snd (createPost env req w)))) = Cache_del (PROFILE_CACHE_KEY u) \<and>
         last (log (snd (createPost env req w))) = Cache_del (POSTS_CACHE_KEY u)"
  using assms(1) unfolding createPost_def
proof (rule try_catch_wp)
  show "\<And>e. status (case e of
            ZodError msgs \<Rightarrow>
              \<lparr>status = 400, success = False, message = JArr (map JStr msgs),
               members = [], error = None\<rparr>
          | _ \<Rightarrow>
              \<lparr>status = 500, success = False, message = JStr ''Failed to create post'',
               members = [], error = Some e\<rparr>) \<noteq> 201"
    by (simp split: exn.split)
qed (simp add: assms(2) not_authenticated_def butlast_append split: option.split sum.split)

lemma updatePost_invalidates:
  assumes "status (fst (updatePost env req w)) = 200" and "user req = Some u"
  shows "kv (cache (snd (updatePost env req w))) (PROFILE_CACHE_KEY u) = None \<and>
         kv (cache (snd (updatePost env req w))) (POSTS_CACHE_KEY u) = None \<and>
         last (butlast (log (snd (updatePost env req w)))) = Cache_del (PROFILE_CACHE_KEY u) \<and>
         last (log (snd (updatePost env req w))) = Cache_del (POSTS_CACHE_KEY u)"
  using assms(1) unfolding updatePost_def
  by (rule try_catch_wp)
     (simp_all add: assms(2) not_authenticated_def butlast_append split: option.split sum.split)

lemma deletePost_invalidates:
  assumes "status (fst (deletePost env req w)) = 200" and "user req = Some u"
  shows "kv (cache (snd (deletePost env req w))) (PROFILE_CACHE_KEY u) = None \<and>
         kv (cache (snd (deletePost env req w))) (POSTS_CACHE_KEY u) = None \<and>
         last (butlast (log (snd (deletePost env req w)))) = Cache_del (PROFILE_CACHE_KEY u) \<and>
         last (log (snd (deletePost env req w))) = Cache_del (POSTS_CACHE_KEY u)"
  using assms(1) unfolding deletePost_def
  by (rule try_catch_wp)
     (simp_all add: assms(2) not_authenticated_def butlast_append split: option.split sum.split)

lemma hello_create_warm:
  "fst (createPost demo_env hello_req warm_world) =
     \<lparr>status = 201, success = True, message = JStr ''Post created successfully'',
      members = [(''data'', JObj [(''content'', JStr ''hello''), (''author'', JStr alice_id),
                  (''image'', JNull), (''tags'', JArr []), (''category'', JStr ''tech'')])],
      error = None\<rparr>"
  by (simp add: createPost_def hello_req_def eval_defs)

lemma edit_warm_status: "status (fst (updatePost demo_env edit_req warm_world)) = 200"
  by (simp add: updatePost_def edit_req_def eval_defs)

lemma delete_warm_status: "status (fst (deletePost demo_env delete_req warm_world)) = 200"
  by (simp add: deletePost_def delete_req_def eval_defs)

text \<open>
  Claim C6. The keys are \<^verbatim>\<open>posts:all\<close>, \<^verbatim>\<open>profile:\<close> followed by the user id and
  \<^verbatim>\<open>posts:\<close> followed by the user id. After every create answered 201 and every
  update or delete answered 200 for a caller \<open>u\<close>, the cache has no entry under
  \<^verbatim>\<open>profile:u\<close> and none under \<^verbatim>\<open>posts:u\<close>, and the two last calls of the request are
  the deletions of these keys, whatever the cache held under \<^verbatim>\<open>posts:all\<close>.
\<close>

theorem mutations_invalidate_user_keys:
  assumes "user req = Some u"
  shows "CACHE_KEY = ''posts:all'' \<and>
         PROFILE_CACHE_KEY u = ''profile:'' @ u \<and>
         POSTS_CACHE_KEY u = ''posts:'' @ u \<and>
         (\<forall>r w'. (createPost env req w = (r, w') \<and> status r = 201) \<or>
                  (updatePost env req w = (r, w') \<and> status r = 200) \<or>
                  (deletePost env req w = (r, w') \<and> status r = 200) \<longrightarrow>
            kv (cache w') (''profile:'' @ u) = None \<and>
            kv (cache w') (''posts:'' @ u) = None \<and>
            last (butlast (log w')) = Cache_del (''profile:'' @ u) \<and>
            last (log w') = Cache_del (''posts:'' @ u))"
proof (intro conjI allI impI)
  fix r w'
  assume "(createPost env req w = (r, w') \<and> status r = 201) \<or>
          (updatePost env req w = (r, w') \<and> status r = 200) \<or>
          (deletePost env req w = (r, w') \<and> status r = 200)"
  then have "kv (cache w') (PROFILE_CACHE_KEY u) = None \<and>
             kv (cache w') (POSTS_CACHE_KEY u) = None \<and>
             last (butlast (log w')) = Cache_del (PROFILE_CACHE_KEY u) \<and>
             last (log w') = Cache_del (POSTS_CACHE_KEY u)"
    using createPost_invalidates [of env req w u] updatePost_invalidates [of env req w u]
      deletePost_invalidates [of env req w u] assms
    by auto
  then show "kv (cache w') (''profile:'' @ u) = None"
    and "kv (cache w') (''posts:'' @ u) = None"
    and "last (butlast (log w')) = Cache_del (''profile:'' @ u)"
    and "last (log w') = Cache_del (''posts:'' @ u)"
    by (simp_all add: key_defs)
qed (simp_all add: key_defs)

theorem mutations_invalidate_user_keys_witness:
  "status (fst (createPost demo_env hello_req warm_world)) = 201 \<and>
   kv (cache (snd (createPost demo_env hello_req warm_world)))
      ''profile:aaaaaaaaaaaaaaaaaaaaaaaa'' = None \<and>
   last (log (snd (createPost demo_env hello_req warm_world))) =
      Cache_del ''posts:aaaaaaaaaaaaaaaaaaaaaaaa'' \<and>
   status (fst (updatePost demo_env edit_req warm_world)) = 200 \<and>
   kv (cache (snd (updatePost demo_env edit_req warm_world)))
      ''posts:aaaaaaaaaaaaaaaaaaaaaaaa'' = None \<and>
   status (fst (deletePost demo_env delete_req warm_world)) = 200 \<and>
   last (butlast (log (snd (deletePost demo_env delete_req warm_world)))) =
      Cache_del ''profile:aaaaaaaaaaaaaaaaaaaaaaaa''"
proof -
  let ?c = "createPost demo_env hello_req warm_world"
  let ?e = "updatePost demo_env edit_req warm_world"
  let ?d = "deletePost demo_env delete_req warm_world"
  have c: "user hello_req = Some ''aaaaaaaaaaaaaaaaaaaaaaaa''"
    and e: "user edit_req = Some ''aaaaaaaaaaaaaaaaaaaaaaaa''"
    and d: "user delete_req = Some ''aaaaaaaaaaaaaaaaaaaaaaaa''"
    by (simp_all add: hello_req_def edit_req_def delete_req_def alice_id_def)
  have sc: "status (fst ?c) = 201"
    by (simp add: hello_create_warm)
  note C = mutations_invalidate_user_keys [OF c, of demo_env warm_world, THEN conjunct2,
      THEN conjunct2, THEN conjunct2, rule_format, of "fst ?c" "snd ?c"]
  note E = mutations_invalidate_user_keys [OF e, of demo_env warm_world, THEN conjunct2,
      THEN conjunct2, THEN conjunct2, rule_format, of "fst ?e" "snd ?e"]
  note D = mutations_invalidate_user_keys [OF d, of demo_env warm_world, THEN conjunct2,
      THEN conjunct2, THEN conjunct2, rule_format, of "fst ?d" "snd ?d"]
  show ?thesis
    using C E D sc edit_warm_status delete_warm_status by simp
qed

subsection \<open>Validation of the content\<close>

text \<open>
  What does hold of an accepted body: the content is present and a string of at least
  one character as received, and the parsed content is that string trimmed.
\<close>

lemma createPostValidation_content:
  assumes "createPostValidation_parse b = Inr pd"
  shows "\<exists>kvs s. b = JObj kvs \<and> map_of kvs ''content'' = Some (JStr s) \<and> s \<noteq> [] \<and>
           p_content pd = trim s"
proof (cases b)
  case (JObj kvs)
  with assms show ?thesis
    by (auto simp: createPostValidation_parse_def zod_string_min1_trim_def
        split: sum.splits option.splits json.splits if_splits)
qed (use assms in \<open>simp_all add: createPostValidation_parse_def\<close>)

text \<open>
  Claim C9 fails on the code: the length is checked on the content as received and the
  trimming comes after. A content of three spaces passes the validation, trims to the
  empty string, and the post is created (201) and stored with the empty content.
\<close>

theorem createPostValidation_accepts_blank_content:
  "trim ''   '' = [] \<and>
   createPostValidation_parse (body blank_req) =
     Inr \<lparr>p_content = [], p_tags = None, p_category = ''tech''\<rparr> \<and>
   status (fst (createPost demo_env blank_req cold_world)) = 201 \<and>
   map content (posts (store (snd (createPost demo_env blank_req cold_world)))) =
     [''first'', ''second'', []]"
  by (simp add: createPost_def blank_req_def eval_defs)

subsection \<open>Creation: the cached list\<close>

lemma JSON_parse_Some [simp]: "JSON_parse (Some s) = Inr v \<longleftrightarrow> s = JsonText v"
  by (cases s) (simp_all add: JSON_parse_def)

lemma truthy_JsonText [simp]: "truthy (Some (JsonText v))"
  by (simp add: truthy_def)

lemma find_append_fresh:
  assumes "i \<notin> post_id ` set xs" and "post_id p = i"
  shows "find (\<lambda>q. post_id q = i) (xs @ [p]) = Some p"
  using assms by (induction xs) auto

lemma post_id_new_post [simp]: "post_id (new_post env c a img t cat) = new_post_id env"
  by (simp add: new_post_def)

lemma author_new_post [simp]: "author (new_post env c a img t cat) = a"
  by (simp add: new_post_def)

lemma content_new_post [simp]: "content (new_post env c a img t cat) = c"
  by (simp add: new_post_def)

lemma profile_key_not_list_key [simp]: "PROFILE_CACHE_KEY u \<noteq> CACHE_KEY"
  by (simp add: key_defs)

lemma posts_key_is_list_key [simp]: "POSTS_CACHE_KEY u = CACHE_KEY \<longleftrightarrow> u = ''all''"
  by (simp add: key_defs)

lemma list_key_not_profile_key [simp]: "CACHE_KEY \<noteq> PROFILE_CACHE_KEY u"
  by (simp add: key_defs)

lemma list_key_is_posts_key [simp]: "CACHE_KEY = POSTS_CACHE_KEY u \<longleftrightarrow> u = ''all''"
  by (auto simp: key_defs)

lemma createPost_handler_not_201:
  "status (case e of
            ZodError msgs \<Rightarrow>
              \<lparr>status = 400, success = False, message = JArr (map JStr msgs),
               members = [], error = None\<rparr>
          | _ \<Rightarrow>
              \<lparr>status = 500, success = False, message = JStr ''Failed to create post'',
               members = [], error = Some e\<rparr>) \<noteq> 201"
  by (simp split: exn.split)

lemma createPost_cached:
  assumes "status (fst (createPost env req w)) = 201"
    and "user req = Some u"
    and "kv (cache w) CACHE_KEY = Some e"
    and "val e = JsonText (JArr ps)"
    and "new_post_id env \<notin> post_id ` set (posts (store w))"
  shows "\<exists>p. posts (store (snd (createPost env req w))) = posts (store w) @ [p] \<and>
           post_id p = new_post_id env \<and> author p = u \<and>
           (\<forall>pd. createPostValidation_parse (body req) = Inr pd \<longrightarrow> content p = p_content pd) \<and>
           Cache_set CACHE_KEY
             (JSON_stringify (JArr (populated (store (snd (createPost env req w))) p # ps)))
             None \<in> set (log (snd (createPost env req w))) \<and>
           (u \<noteq> ''all'' \<longrightarrow>
              kv (cache (snd (createPost env req w))) CACHE_KEY =
                Some \<lparr>val = JSON_stringify
                              (JArr (populated (store (snd (createPost env req w))) p # ps)),
                      ttl = None\<rparr>)"
  using assms(1) unfolding createPost_def
  apply (rule try_catch_wp)
   apply (rule createPost_handler_not_201)
  apply (simp add: assms(2-5) not_authenticated_def unshift_def array_of_def
      populated_by_id_def find_append_fresh split: option.split sum.split)
  done

text \<open>
  Claim C2. For a create request of caller \<open>u\<close> answered 201, made while the cache
  holds under \<^verbatim>\<open>posts:all\<close> the serialization of a list \<open>ps\<close>, and for which the store
  assigns an identifier no stored post has: the store gains exactly one post \<open>p\<close>, with
  the new identifier, author \<open>u\<close> and the validated content; the controller writes
  under \<^verbatim>\<open>posts:all\<close>, with no expiry, the list whose head is \<open>p\<close> with author and
  category resolved and whose tail is \<open>ps\<close>; and that list is what the cache holds at
  the end (the caller's own key \<^verbatim>\<open>posts:u\<close> is deleted last, so this needs \<open>u\<close> to
  differ from \<^verbatim>\<open>all\<close>, which no user identifier is).
\<close>

theorem createPost_prepends_to_cached_list:
  assumes "createPost env req w = (r, w')"
    and "status r = 201"
    and "user req = Some u"
    and "kv (cache w) ''posts:all'' = Some e"
    and "JSON_parse (Some (val e)) = Inr (JArr ps)"
    and "new_post_id env \<notin> post_id ` set (posts (store w))"
  shows "\<exists>p. posts (store w') = posts (store w) @ [p] \<and>
           post_id p = new_post_id env \<and> author p = u \<and>
           (\<forall>pd. createPostValidation_parse (body req) = Inr pd \<longrightarrow>
                 content p = p_content pd) \<and>
           Cache_set ''posts:all'' (JSON_stringify (JArr (populated (store w') p # ps))) None
             \<in> set (log w') \<and>
           (u \<noteq> ''all'' \<longrightarrow>
              kv (cache w') ''posts:all'' =
                Some \<lparr>val = JSON_stringify (JArr (populated (store w') p # ps)),
                      ttl = None\<rparr>)"
proof -
  have s: "status (fst (createPost env req w)) = 201"
    and w': "snd (createPost env req w) = w'"
    using assms(1,2) by simp_all
  have k: "kv (cache w) CACHE_KEY = Some e" and v: "val e = JsonText (JArr ps)"
    using assms(4,5) by (simp_all add: CACHE_KEY_def)
  from createPost_cached [OF s assms(3) k v assms(6)] show ?thesis
    unfolding w' by (simp add: CACHE_KEY_def)
qed

theorem createPost_prepends_to_cached_list_witness:
  "\<exists>p. posts (store (snd (createPost demo_env hello_req warm_world))) = [post1, post2, p] \<and>
       post_id p = ''000000000000000000000003'' \<and> author p = alice_id \<and>
       content p = ''hello'' \<and>
       kv (cache (snd (createPost demo_env hello_req warm_world))) ''posts:all'' =
         Some \<lparr>val = JsonText
                  (JArr (populated (store (snd (createPost demo_env hello_req warm_world))) p
                         # demo_listing)),
               ttl = None\<rparr>"
proof -
  let ?c = "createPost demo_env hello_req warm_world"
  have 1: "?c = (fst ?c, snd ?c)"
    by simp
  have 2: "status (fst ?c) = 201"
    by (simp add: hello_create_warm)
  have 3: "user hello_req = Some alice_id"
    by (simp add: hello_req_def)
  have 4: "kv (cache warm_world) ''posts:all'' =
             Some \<lparr>val = JsonText (JArr demo_listing), ttl = Some 43200\<rparr>"
    by (simp add: warm_world_def)
  have 5: "JSON_parse (Some (val \<lparr>val = JsonText (JArr demo_listing), ttl = Some 43200\<rparr>)) =
             Inr (JArr demo_listing)"
    by simp
  have 6: "new_post_id demo_env \<notin> post_id ` set (posts (store warm_world))"
    by (simp add: demo_env_def warm_world_def demo_db_def post1_def post2_def post1_id_def
        post2_id_def)
  have 7: "createPostValidation_parse (body hello_req) =
             Inr \<lparr>p_content = ''hello'', p_tags = None, p_category = ''tech''\<rparr>"
    by (simp add: hello_req_def validation_defs)
  from createPost_prepends_to_cached_list [OF 1 2 3 4 5 6]
  obtain p where p: "posts (store (snd ?c)) = posts (store warm_world) @ [p]"
    "post_id p = new_post_id demo_env" "author p = alice_id"
    "\<forall>pd. createPostValidation_parse (body hello_req) = Inr pd \<longrightarrow>
        content p = p_content pd"
    "alice_id \<noteq> ''all'' \<longrightarrow>
       kv (cache (snd ?c)) ''posts:all'' =
         Some \<lparr>val = JSON_stringify (JArr (populated (store (snd ?c)) p # demo_listing)),
               ttl = None\<rparr>"
    by blast
  have 8: "alice_id \<noteq> ''all''"
    by (simp add: alice_id_def)
  show ?thesis
  proof (intro exI [of _ p] conjI)
    show "posts (store (snd ?c)) = [post1, post2, p]"
      using p(1) by (simp add: warm_world_def demo_db_def)
    show "post_id p = ''000000000000000000000003''"
      using p(2) by (simp add: demo_env_def)
    show "author p = alice_id"
      by (rule p(3))
    show "content p = ''hello''"
      using p(4) 7 by simp
    show "kv (cache (snd ?c)) ''posts:all'' =
         Some \<lparr>val = JsonText (JArr (populated (store (snd ?c)) p # demo_listing)),
               ttl = None\<rparr>"
      using p(5) 8 by (simp add: JSON_stringify_def)
  qed
qed

subsection \<open>Update: the cached list\<close>

lemma id_is_True [simp]: "id_is i q = Inr True \<longleftrightarrow> member_id q = Inr (Some (JStr i))"
  by (cases "member_id q") (simp_all add: id_is_def)

lemma id_is_False [simp]:
  "id_is i q = Inr False \<longleftrightarrow> (\<exists>m. member_id q = Inr m \<and> m \<noteq> Some (JStr i))"
  by (cases "member_id q") (simp_all add: id_is_def)

text \<open>
  \<^verbatim>\<open>findIndex\<close> returns \<open>-1\<close> when the callback is false on every element, and
  otherwise the position of the first element it is true on.
\<close>

lemma findIndex_from_Inr:
  assumes "findIndex_from f ps k = Inr i"
  shows "(i = - 1 \<and> (\<forall>q \<in> set ps. f q = Inr False)) \<or>
         (\<exists>n < length ps. i = k + int n \<and> f (ps ! n) = Inr True \<and>
            (\<forall>j < n. f (ps ! j) = Inr False))"
  using assms
proof (induction ps arbitrary: k)
  case Nil
  then show ?case by simp
next
  case (Cons p ps)
  show ?case
  proof (cases "f p")
    case (Inl e)
    with Cons.prems show ?thesis by simp
  next
    case (Inr b)
    show ?thesis
    proof (cases b)
      case True
      with Inr Cons.prems have "i = k" by simp
      with Inr True show ?thesis by auto
    next
      case False
      with Inr Cons.prems have "findIndex_from f ps (k + 1) = Inr i" by simp
      from Cons.IH [OF this] show ?thesis
      proof
        assume "i = - 1 \<and> (\<forall>q \<in> set ps. f q = Inr False)"
        with Inr False show ?thesis by simp
      next
        assume "\<exists>n < length ps. i = k + 1 + int n \<and> f (ps ! n) = Inr True \<and>
                  (\<forall>j < n. f (ps ! j) = Inr False)"
        then obtain n where n: "n < length ps" "i = k + 1 + int n" "f (ps ! n) = Inr True"
          "\<forall>j < n. f (ps ! j) = Inr False"
          by blast
        have "\<forall>j < Suc n. f ((p # ps) ! j) = Inr False"
          using n(4) Inr False by (auto simp: nth_Cons split: nat.split)
        with n(1-3) have "Suc n < length (p # ps) \<and> i = k + int (Suc n) \<and>
            f ((p # ps) ! Suc n) = Inr True \<and> (\<forall>j < Suc n. f ((p # ps) ! j) = Inr False)"
          by simp
        then show ?thesis by blast
      qed
    qed
  qed
qed

lemma findIndex_found:
  assumes "findIndex (id_is i) ps = Inr x"
    and "\<exists>q \<in> set ps. member_id q = Inr (Some (JStr i))"
  shows "\<exists>n < length ps. x = int n \<and> member_id (ps ! n) = Inr (Some (JStr i)) \<and>
           (\<forall>j < n. member_id (ps ! j) \<noteq> Inr (Some (JStr i)))"
proof -
  from findIndex_from_Inr [OF assms(1) [unfolded findIndex_def]]
  show ?thesis
  proof
    assume "x = - 1 \<and> (\<forall>q \<in> set ps. id_is i q = Inr False)"
    with assms(2) show ?thesis by auto
  next
    assume "\<exists>n < length ps. x = 0 + int n \<and> id_is i (ps ! n) = Inr True \<and>
              (\<forall>j < n. id_is i (ps ! j) = Inr False)"
    then obtain n where n: "n < length ps" "x = int n"
      "member_id (ps ! n) = Inr (Some (JStr i))"
      "\<forall>j < n. \<exists>m. member_id (ps ! j) = Inr m \<and> m \<noteq> Some (JStr i)"
      by auto
    from n(4) have "\<forall>j < n. member_id (ps ! j) \<noteq> Inr (Some (JStr i))"
      by fastforce
    with n(1-3) show ?thesis by blast
  qed
qed

lemma find_update_first:
  assumes "find P xs = Some p" and "\<And>x. P x \<Longrightarrow> P (f x)"
  shows "find P (update_first P f xs) = Some (f p)"
  using assms by (induction xs) (auto split: if_splits)

lemma find_post_id: "find (\<lambda>q. post_id q = i) xs = Some p \<Longrightarrow> post_id p = i"
  by (induction xs) (auto split: if_splits)

lemma find_updated_post:
  assumes "find (\<lambda>q. post_id q = i) xs = Some p"
  shows "find (\<lambda>q. post_id q = i) (update_first (\<lambda>q. post_id q = i) (content_update f) xs) =
           Some (content_update f p)"
  using assms by (intro find_update_first) simp_all

lemma populated_updated_post:
  assumes "find (\<lambda>q. post_id q = i) (posts d) = Some p"
  shows "populated_by_id
           (d\<lparr>posts := update_first (\<lambda>q. post_id q = i) (content_update f) (posts d)\<rparr>)
           (post_id p) =
         populated
           (d\<lparr>posts := update_first (\<lambda>q. post_id q = i) (content_update f) (posts d)\<rparr>)
           (content_update f p)"
  using find_post_id [OF assms] find_updated_post [OF assms, of f]
  by (simp add: populated_by_id_def)

lemma updatePost_cached:
  assumes "status (fst (updatePost env req w)) = 200"
    and "user req = Some u"
    and "kv (cache w) CACHE_KEY = Some e"
    and "val e = JsonText (JArr ps)"
  shows "\<exists>c p x. updatePostValidation_parse (body req) = Inr c \<and>
           find (\<lambda>p. post_id p = castObjectId env (params_id req)) (posts (store w)) = Some p \<and>
           author p = u \<and>
           findIndex (id_is (params_id req)) ps = Inr x \<and>
           store (snd (updatePost env req w)) =
             (store w)\<lparr>posts := update_first (\<lambda>p. post_id p = castObjectId env (params_id req))
                                  (content_update (\<lambda>_. c)) (posts (store w))\<rparr> \<and>
           (x > - 1 \<longrightarrow>
              Cache_set CACHE_KEY
                (JSON_stringify
                   (JArr (ps[nat x := populated_by_id (store (snd (updatePost env req w)))
                                         (post_id p)])))
                None \<in> set (log (snd (updatePost env req w))) \<and>
              (u \<noteq> ''all'' \<longrightarrow>
                 kv (cache (snd (updatePost env req w))) CACHE_KEY =
                   Some \<lparr>val = JSON_stringify
                            (JArr (ps[nat x := populated_by_id
                                                 (store (snd (updatePost env req w)))
                                                 (post_id p)])),
                         ttl = None\<rparr>))"
  using assms(1) unfolding updatePost_def
  apply (rule try_catch_wp)
   apply simp
  apply (simp add: assms(2-4) not_authenticated_def array_of_def
      split: option.split sum.split)
  done

text \<open>
  What the update does to the cached list. For an update request of caller \<open>u\<close>
  answered 200, made while the cache holds under \<^verbatim>\<open>posts:all\<close> the serialization of
  a list \<open>ps\<close> in which some entry has the identifier as the request spells it as its
  \<^verbatim>\<open>_id\<close>: let \<open>i\<close> be the first position of such an entry and \<open>p\<close> the post
  stored, after the update, under the ObjectId the request's identifier is cast to
  (its content is the validated content). The controller writes under \<^verbatim>\<open>posts:all\<close>,
  with no expiry, the list \<open>ps\<close> with position \<open>i\<close> replaced by \<open>p\<close> with author and
  category resolved, all other positions as they were; and that list is what the cache
  holds at the end (for a caller other than \<^verbatim>\<open>all\<close>, whose own key is the list key).
\<close>

lemma updatePost_patches_first_match:
  assumes "updatePost env req w = (r, w')"
    and "status r = 200"
    and "user req = Some u"
    and "kv (cache w) ''posts:all'' = Some e"
    and "JSON_parse (Some (val e)) = Inr (JArr ps)"
    and "\<exists>q \<in> set ps. member_id q = Inr (Some (JStr (params_id req)))"
  shows "\<exists>i p. i < length ps \<and>
           member_id (ps ! i) = Inr (Some (JStr (params_id req))) \<and>
           (\<forall>j < i. member_id (ps ! j) \<noteq> Inr (Some (JStr (params_id req)))) \<and>
           find (\<lambda>q. post_id q = castObjectId env (params_id req)) (posts (store w')) = Some p \<and>
           updatePostValidation_parse (body req) = Inr (content p) \<and>
           Cache_set ''posts:all'' (JSON_stringify (JArr (ps[i := populated (store w') p]))) None
             \<in> set (log w') \<and>
           (u \<noteq> ''all'' \<longrightarrow>
              kv (cache w') ''posts:all'' =
                Some \<lparr>val = JSON_stringify (JArr (ps[i := populated (store w') p])),
                      ttl = None\<rparr>)"
proof -
  have s: "status (fst (updatePost env req w)) = 200"
    and w': "snd (updatePost env req w) = w'"
    using assms(1,2) by simp_all
  have k: "kv (cache w) CACHE_KEY = Some e" and v: "val e = JsonText (JArr ps)"
    using assms(4,5) by (simp_all add: CACHE_KEY_def)
  from updatePost_cached [OF s assms(3) k v, unfolded w']
  obtain c p0 x where
    c: "updatePostValidation_parse (body req) = Inr c"
    and p0: "find (\<lambda>p. post_id p = castObjectId env (params_id req)) (posts (store w)) = Some p0"
    and x: "findIndex (id_is (params_id req)) ps = Inr x"
    and st: "store w' = (store w)\<lparr>posts := update_first (\<lambda>p. post_id p = castObjectId env (params_id req))
                                  (content_update (\<lambda>_. c)) (posts (store w))\<rparr>"
    and set: "x > - 1 \<longrightarrow>
              Cache_set CACHE_KEY
                (JSON_stringify (JArr (ps[nat x := populated_by_id (store w') (post_id p0)])))
                None \<in> set (log w') \<and>
              (u \<noteq> ''all'' \<longrightarrow>
                 kv (cache w') CACHE_KEY =
                   Some \<lparr>val = JSON_stringify
                            (JArr (ps[nat x := populated_by_id (store w') (post_id p0)])),
                         ttl = None\<rparr>)"
    by blast
  from findIndex_found [OF x assms(6)]
  obtain n where n: "n < length ps" "x = int n"
    "member_id (ps ! n) = Inr (Some (JStr (params_id req)))"
    "\<forall>j < n. member_id (ps ! j) \<noteq> Inr (Some (JStr (params_id req)))"
    by blast
  let ?p = "p0\<lparr>content := c\<rparr>"
  have f: "find (\<lambda>q. post_id q = castObjectId env (params_id req)) (posts (store w')) = Some ?p"
    unfolding st using find_updated_post [OF p0, of "\<lambda>_. c"] by simp
  have r: "populated_by_id (store w') (post_id p0) = populated (store w') ?p"
    unfolding st using populated_updated_post [OF p0, of "\<lambda>_. c"] by simp
  have "Cache_set ''posts:all'' (JSON_stringify (JArr (ps[n := populated (store w') ?p]))) None
          \<in> set (log w') \<and>
        (u \<noteq> ''all'' \<longrightarrow>
           kv (cache w') ''posts:all'' =
             Some \<lparr>val = JSON_stringify (JArr (ps[n := populated (store w') ?p])),
                   ttl = None\<rparr>)"
    using set n(2) r by (simp add: CACHE_KEY_def)
  with n(1,3,4) f c show ?thesis
    by (intro exI [of _ n] exI [of _ ?p]) simp
qed

lemma updatePost_patches_first_match_demo:
  "\<exists>p. find (\<lambda>q. post_id q = post1_id)
          (posts (store (snd (updatePost demo_env edit_req warm_world)))) = Some p \<and>
       content p = ''edited'' \<and>
       kv (cache (snd (updatePost demo_env edit_req warm_world))) ''posts:all'' =
         Some \<lparr>val = JsonText
                  (JArr [populated demo_db post2,
                         populated (store (snd (updatePost demo_env edit_req warm_world))) p]),
               ttl = None\<rparr>"
proof -
  let ?u = "updatePost demo_env edit_req warm_world"
  have 1: "?u = (fst ?u, snd ?u)"
    by simp
  have 3: "user edit_req = Some alice_id"
    by (simp add: edit_req_def)
  have 4: "kv (cache warm_world) ''posts:all'' =
             Some \<lparr>val = JsonText (JArr demo_listing), ttl = Some 43200\<rparr>"
    by (simp add: warm_world_def)
  have 5: "JSON_parse (Some (val \<lparr>val = JsonText (JArr demo_listing), ttl = Some 43200\<rparr>)) =
             Inr (JArr demo_listing)"
    by simp
  have m1: "member_id (populated demo_db post1) = Inr (Some (JStr post1_id))"
    and m2: "member_id (populated demo_db post2) \<noteq> Inr (Some (JStr post1_id))"
    by (simp_all add: member_id_def populated_def post1_def post2_def post1_id_def
        post2_id_def)
  have 6: "\<exists>q \<in> set demo_listing. member_id q = Inr (Some (JStr (params_id edit_req)))"
    using m1 by (simp add: demo_listing_def edit_req_def)
  have 7: "updatePostValidation_parse (body edit_req) = Inr ''edited''"
    by (simp add: edit_req_def validation_defs)
  have 8: "alice_id \<noteq> ''all''"
    by (simp add: alice_id_def)
  from updatePost_patches_first_match [OF 1 edit_warm_status 3 4 5 6]
  obtain i p where ip: "i < length demo_listing"
    "member_id (demo_listing ! i) = Inr (Some (JStr (params_id edit_req)))"
    "find (\<lambda>q. post_id q = castObjectId demo_env (params_id edit_req))
       (posts (store (snd ?u))) = Some p"
    "updatePostValidation_parse (body edit_req) = Inr (content p)"
    "alice_id \<noteq> ''all'' \<longrightarrow>
       kv (cache (snd ?u)) ''posts:all'' =
         Some \<lparr>val = JSON_stringify (JArr (demo_listing[i := populated (store (snd ?u)) p])),
               ttl = None\<rparr>"
    by blast
  have "i = 1"
    using ip(1,2) m2 by (cases i) (simp_all add: demo_listing_def edit_req_def)
  with ip(3-5) 7 8 show ?thesis
    by (intro exI [of _ p])
       (simp add: demo_listing_def edit_req_def JSON_stringify_def demo_cast)
qed

subsection \<open>Ownership\<close>

lemma updatePost_forbidden:
  assumes "user req = Some u" and "u \<noteq> []"
    and "updatePostValidation_parse (body req) = Inr c"
    and "isValid env (params_id req)"
    and "find (\<lambda>p. post_id p = castObjectId env (params_id req)) (posts (store w)) = Some p"
    and "author p \<noteq> u"
  shows "updatePost env req w =
     (\<lparr>status = 403, success = False,
       message = JStr ''You are not authorized to update this post'',
       members = [], error = None\<rparr>,
      emit (Db (Post_findById (params_id req))) w)"
  using assms by (simp add: updatePost_def io_defs postModel_findById_def)

lemma deletePost_forbidden:
  assumes "user req = Some u" and "u \<noteq> []"
    and "isValid env (params_id req)"
    and "find (\<lambda>p. post_id p = castObjectId env (params_id req)) (posts (store w)) = Some p"
    and "author p \<noteq> u"
  shows "deletePost env req w =
     (\<lparr>status = 403, success = False,
       message = JStr ''You are not authorized to delete this post'',
       members = [], error = None\<rparr>,
      emit (Db (Post_findById (params_id req))) w)"
  using assms by (simp add: deletePost_def io_defs postModel_findById_def)

text \<open>
  Claim C7, as stated, fails: the body of an update is validated before the post is
  looked up. Bob, who is not the author of the first post, sends an update without
  content for it and is answered 500, not 403.
\<close>

theorem non_author_update_counterexample:
  "posts (store warm_world) = [post1, post2] \<and>
   post_id post1 = params_id intruder_req \<and>
   author post1 = alice_id \<and>
   user intruder_req = Some bob_id \<and>
   alice_id \<noteq> bob_id \<and>
   status (fst (updatePost demo_env intruder_req warm_world)) = 500"
proof -
  have "updatePostValidation_parse (body intruder_req) = Inl (ZodError [''Required''])"
    by (simp add: intruder_req_def validation_defs)
  from updatePost_invalid_body [OF _ _ this, of bob_id demo_env warm_world]
  have "status (fst (updatePost demo_env intruder_req warm_world)) = 500"
    by (simp add: intruder_req_def bob_id_def)
  then show ?thesis
    by (simp add: warm_world_def demo_db_def post1_def intruder_req_def alice_id_def
        bob_id_def)
qed

text \<open>
  Claim C7, amended. Let the caller be authenticated as \<open>u\<close>, and let the store hold
  under the ObjectId that the (valid) identifier of the request is cast to a post
  whose author is not \<open>u\<close>. A delete request is answered 403, and so is an update
  request whose body passes validation; in both the only call made is the lookup of
  the post, and the store and the cache are as before. Whatever the body of an update
  request, the store is unchanged.
\<close>

theorem non_author_is_refused:
  assumes "user req = Some u" and "u \<noteq> []"
    and "isValid env (params_id req)"
    and "find (\<lambda>p. post_id p = castObjectId env (params_id req)) (posts (store w)) = Some p"
    and "author p \<noteq> u"
  shows "store (snd (updatePost env req w)) = store w \<and>
         (\<forall>c. updatePostValidation_parse (body req) = Inr c \<longrightarrow>
            fst (updatePost env req w) =
              \<lparr>status = 403, success = False,
               message = JStr ''You are not authorized to update this post'',
               members = [], error = None\<rparr> \<and>
            cache (snd (updatePost env req w)) = cache w \<and>
            log (snd (updatePost env req w)) =
              log w @ [Db (Post_findById (params_id req))]) \<and>
         fst (deletePost env req w) =
           \<lparr>status = 403, success = False,
            message = JStr ''You are not authorized to delete this post'',
            members = [], error = None\<rparr> \<and>
         store (snd (deletePost env req w)) = store w \<and>
         cache (snd (deletePost env req w)) = cache w \<and>
         log (snd (deletePost env req w)) = log w @ [Db (Post_findById (params_id req))]"
proof -
  have "store (snd (updatePost env req w)) = store w"
  proof (cases "updatePostValidation_parse (body req)")
    case (Inl e)
    from updatePost_invalid_body [OF assms(1,2) this] show ?thesis
      by simp
  next
    case (Inr c)
    from updatePost_forbidden [OF assms(1,2) this assms(3-5)] show ?thesis
      by simp
  qed
  moreover have "\<forall>c. updatePostValidation_parse (body req) = Inr c \<longrightarrow>
            fst (updatePost env req w) =
              \<lparr>status = 403, success = False,
               message = JStr ''You are not authorized to update this post'',
               members = [], error = None\<rparr> \<and>
            cache (snd (updatePost env req w)) = cache w \<and>
            log (snd (updatePost env req w)) =
              log w @ [Db (Post_findById (params_id req))]"
    using updatePost_forbidden [OF assms(1,2) _ assms(3-5)] by simp
  ultimately show ?thesis
    using deletePost_forbidden [OF assms] by simp
qed

theorem non_author_is_refused_witness:
  "status (fst (updatePost demo_env intruder_edit_req warm_world)) = 403 \<and>
   store (snd (updatePost demo_env intruder_edit_req warm_world)) = demo_db \<and>
   log (snd (updatePost demo_env intruder_edit_req warm_world)) = [Db (Post_findById post1_id)] \<and>
   status (fst (deletePost demo_env intruder_edit_req warm_world)) = 403 \<and>
   store (snd (deletePost demo_env intruder_edit_req warm_world)) = demo_db \<and>
   store (snd (updatePost demo_env intruder_req warm_world)) = demo_db"
proof -
  have v: "isValid demo_env post1_id"
    by (simp add: demo_env_def hex24_def is_hex_def post1_id_def)
  have f: "find (\<lambda>p. post_id p = post1_id) (posts (store warm_world)) = Some post1"
    by (simp add: warm_world_def demo_db_def post1_def)
  have a: "author post1 \<noteq> bob_id"
    by (simp add: post1_def alice_id_def bob_id_def)
  have b: "bob_id \<noteq> []"
    by (simp add: bob_id_def)
  have c: "updatePostValidation_parse (body intruder_edit_req) = Inr ''mine now''"
    by (simp add: intruder_edit_req_def validation_defs)
  have 1: "user intruder_edit_req = Some bob_id" "params_id intruder_edit_req = post1_id"
    and 2: "user intruder_req = Some bob_id" "params_id intruder_req = post1_id"
    by (simp_all add: intruder_edit_req_def intruder_req_def)
  from non_author_is_refused [of intruder_edit_req bob_id demo_env warm_world post1]
    non_author_is_refused [of intruder_req bob_id demo_env warm_world post1]
  show ?thesis
    using v f a b c 1 2 by (simp add: warm_world_def demo_cast)
qed

subsection \<open>Deletion\<close>

lemma deletePost_invalid_id:
  assumes "user req = Some u" and "u \<noteq> []" and "\<not> isValid env (params_id req)"
  shows "deletePost env req w =
     (\<lparr>status = 400, success = False, message = JStr ''Invalid post ID'',
       members = [], error = None\<rparr>, w)"
  using assms by (simp add: deletePost_def io_defs)

lemma deletePost_not_found:
  assumes "user req = Some u" and "u \<noteq> []" and "isValid env (params_id req)"
    and "find (\<lambda>p. post_id p = castObjectId env (params_id req)) (posts (store w)) = None"
  shows "deletePost env req w =
     (\<lparr>status = 404, success = False, message = JStr ''Failed to delete: Post not found'',
       members = [], error = None\<rparr>,
      emit (Db (Post_findById (params_id req))) w)"
  using assms by (simp add: deletePost_def io_defs postModel_findById_def)

text \<open>The calls on the cache leave the store alone, also when they raise.\<close>

lemma deletePost_owner_store:
  assumes "user req = Some u" and "u \<noteq> []" and "isValid env (params_id req)"
    and "find (\<lambda>p. post_id p = castObjectId env (params_id req)) (posts (store w)) = Some p"
    and "author p = u"
  shows "store (snd (deletePost env req w)) =
           (store w)\<lparr>posts := delete_first (\<lambda>q. post_id q = castObjectId env (params_id req)) (posts (store w))\<rparr>"
  using assms
  by (simp add: deletePost_def io_defs postModel_findById_def postModel_findByIdAndDelete_def
        client_defs split: option.split sum.split)

lemma id_is_not_Inr:
  "id_is_not i q = Inr b \<longleftrightarrow> (\<exists>m. member_id q = Inr m \<and> b = (m \<noteq> Some (JStr i)))"
  by (cases "member_id q") (auto simp: id_is_not_def)

lemma filter_js_Inr:
  assumes "filter_js (id_is_not i) ps = Inr fs"
  shows "fs = filter (\<lambda>q. member_id q \<noteq> Inr (Some (JStr i))) ps"
  using assms
proof (induction ps arbitrary: fs)
  case Nil
  then show ?case by simp
next
  case (Cons p ps)
  from Cons.prems obtain b r where b: "id_is_not i p = Inr b"
    and r: "filter_js (id_is_not i) ps = Inr r"
    and fs: "fs = (if b then p # r else r)"
    by (auto split: sum.splits)
  from b obtain m where m: "member_id p = Inr m" "b = (m \<noteq> Some (JStr i))"
    by (auto simp: id_is_not_Inr)
  from Cons.IH [OF r] fs m show ?case
    by auto
qed

lemma delete_first_distinct:
  assumes "distinct (map post_id xs)"
  shows "i \<notin> post_id ` set (delete_first (\<lambda>q. post_id q = i) xs)"
  using assms by (induction xs) auto

lemma deletePost_cached:
  assumes "status (fst (deletePost env req w)) = 200"
    and "user req = Some u"
    and "kv (cache w) CACHE_KEY = Some e"
    and "val e = JsonText (JArr ps)"
  shows "\<exists>fs. filter_js (id_is_not (params_id req)) ps = Inr fs \<and>
           Cache_set CACHE_KEY (JSON_stringify (JArr fs)) None
             \<in> set (log (snd (deletePost env req w))) \<and>
           (u \<noteq> ''all'' \<longrightarrow>
              kv (cache (snd (deletePost env req w))) CACHE_KEY =
                Some \<lparr>val = JSON_stringify (JArr fs), ttl = None\<rparr>)"
  using assms(1) unfolding deletePost_def
  apply (rule try_catch_wp)
   apply simp
  apply (simp add: assms(2-4) not_authenticated_def array_of_def
      split: option.split sum.split)
  done

text \<open>
  What a delete request does, for an authenticated caller \<open>u\<close>, in this order:
  an identifier that is not valid is answered 400 and nothing at all is called (the
  state is the one before); a valid identifier cast to an ObjectId under which the
  store has no post is answered 404, the store unchanged; a post of another author is
  answered 403, the store unchanged; and for a post of \<open>u\<close> the store afterwards is
  the one before without that post (with unique identifiers, no post with that
  ObjectId is left). So the store changes only when the three checks have passed.
  When the request is answered 200 and the cache held under \<^verbatim>\<open>posts:all\<close> the
  serialization of a list \<open>ps\<close>, the controller writes under \<^verbatim>\<open>posts:all\<close>, with no
  expiry, the entries of \<open>ps\<close> whose \<^verbatim>\<open>_id\<close> is not the identifier as the request
  spells it, in their order, and the written list is what the cache holds at the end
  (for a caller other than \<^verbatim>\<open>all\<close>).
\<close>

lemma deletePost_checks_in_order:
  assumes "deletePost env req w = (r, w')"
    and "user req = Some u" and "u \<noteq> []"
  shows "(\<not> isValid env (params_id req) \<longrightarrow>
            r = \<lparr>status = 400, success = False, message = JStr ''Invalid post ID'',
                 members = [], error = None\<rparr> \<and> w' = w)
       \<and> (isValid env (params_id req) \<and>
          find (\<lambda>p. post_id p = castObjectId env (params_id req)) (posts (store w)) = None \<longrightarrow>
            r = \<lparr>status = 404, success = False,
                 message = JStr ''Failed to delete: Post not found'',
                 members = [], error = None\<rparr> \<and> store w' = store w)
       \<and> (\<forall>p. isValid env (params_id req) \<and>
              find (\<lambda>p. post_id p = castObjectId env (params_id req)) (posts (store w)) = Some p \<and>
              author p \<noteq> u \<longrightarrow>
            r = \<lparr>status = 403, success = False,
                 message = JStr ''You are not authorized to delete this post'',
                 members = [], error = None\<rparr> \<and> store w' = store w)
       \<and> (\<forall>p. isValid env (params_id req) \<and>
              find (\<lambda>p. post_id p = castObjectId env (params_id req)) (posts (store w)) = Some p \<and>
              author p = u \<longrightarrow>
            store w' =
              (store w)\<lparr>posts := delete_first (\<lambda>q. post_id q = castObjectId env (params_id req))
                                   (posts (store w))\<rparr> \<and>
            (distinct (map post_id (posts (store w))) \<longrightarrow>
               castObjectId env (params_id req) \<notin> post_id ` set (posts (store w'))))
       \<and> (store w' \<noteq> store w \<longrightarrow>
            isValid env (params_id req) \<and>
            (\<exists>p. find (\<lambda>p. post_id p = castObjectId env (params_id req)) (posts (store w)) = Some p \<and>
                 author p = u))
       \<and> (\<forall>e ps. status r = 200 \<and> kv (cache w) ''posts:all'' = Some e \<and>
              JSON_parse (Some (val e)) = Inr (JArr ps) \<longrightarrow>
            Cache_set ''posts:all''
              (JSON_stringify
                 (JArr (filter (\<lambda>q. member_id q \<noteq> Inr (Some (JStr (params_id req)))) ps)))
              None \<in> set (log w') \<and>
            (\<forall>q \<in> set (filter (\<lambda>q. member_id q \<noteq> Inr (Some (JStr (params_id req)))) ps).
               member_id q \<noteq> Inr (Some (JStr (params_id req)))) \<and>
            (u \<noteq> ''all'' \<longrightarrow>
               kv (cache w') ''posts:all'' =
                 Some \<lparr>val = JSON_stringify
                          (JArr (filter (\<lambda>q. member_id q \<noteq> Inr (Some (JStr (params_id req))))
                                   ps)),
                       ttl = None\<rparr>))"
proof -
  have r: "r = fst (deletePost env req w)" and w': "w' = snd (deletePost env req w)"
    using assms(1) by simp_all
  note a = assms(2,3)
  have c1: "\<not> isValid env (params_id req) \<longrightarrow>
            r = \<lparr>status = 400, success = False, message = JStr ''Invalid post ID'',
                 members = [], error = None\<rparr> \<and> w' = w"
    unfolding r w' by (simp add: deletePost_invalid_id [OF a])
  have c2: "isValid env (params_id req) \<and>
          find (\<lambda>p. post_id p = castObjectId env (params_id req)) (posts (store w)) = None \<longrightarrow>
            r = \<lparr>status = 404, success = False,
                 message = JStr ''Failed to delete: Post not found'',
                 members = [], error = None\<rparr> \<and> store w' = store w"
    unfolding r w' by (simp add: deletePost_not_found [OF a])
  have c3: "\<forall>p. isValid env (params_id req) \<and>
              find (\<lambda>p. post_id p = castObjectId env (params_id req)) (posts (store w)) = Some p \<and>
              author p \<noteq> u \<longrightarrow>
            r = \<lparr>status = 403, success = False,
                 message = JStr ''You are not authorized to delete this post'',
                 members = [], error = None\<rparr> \<and> store w' = store w"
    unfolding r w' by (simp add: deletePost_forbidden [OF a])
  have c4: "\<forall>p. isValid env (params_id req) \<and>
              find (\<lambda>p. post_id p = castObjectId env (params_id req)) (posts (store w)) = Some p \<and>
              author p = u \<longrightarrow>
            store w' =
              (store w)\<lparr>posts := delete_first (\<lambda>q. post_id q = castObjectId env (params_id req))
                                   (posts (store w))\<rparr> \<and>
            (distinct (map post_id (posts (store w))) \<longrightarrow>
               castObjectId env (params_id req) \<notin> post_id ` set (posts (store w')))"
    unfolding w' by (simp add: deletePost_owner_store [OF a] delete_first_distinct)
  have c5: "store w' \<noteq> store w \<longrightarrow>
            isValid env (params_id req) \<and>
            (\<exists>p. find (\<lambda>p. post_id p = castObjectId env (params_id req)) (posts (store w)) = Some p \<and>
                 author p = u)"
  proof (cases "isValid env (params_id req)")
    case False
    with c1 show ?thesis by simp
  next
    case True
    show ?thesis
    proof (cases "find (\<lambda>p. post_id p = castObjectId env (params_id req)) (posts (store w))")
      case None
      with c2 True show ?thesis by simp
    next
      case (Some p)
      show ?thesis
      proof (cases "author p = u")
        case True
        with Some \<open>isValid env (params_id req)\<close> show ?thesis by simp
      next
        case False
        with c3 Some \<open>isValid env (params_id req)\<close> have "store w' = store w" by blast
        then show ?thesis by simp
      qed
    qed
  qed
  have c6: "\<forall>e ps. status r = 200 \<and> kv (cache w) ''posts:all'' = Some e \<and>
              JSON_parse (Some (val e)) = Inr (JArr ps) \<longrightarrow>
            Cache_set ''posts:all''
              (JSON_stringify
                 (JArr (filter (\<lambda>q. member_id q \<noteq> Inr (Some (JStr (params_id req)))) ps)))
              None \<in> set (log w') \<and>
            (\<forall>q \<in> set (filter (\<lambda>q. member_id q \<noteq> Inr (Some (JStr (params_id req)))) ps).
               member_id q \<noteq> Inr (Some (JStr (params_id req)))) \<and>
            (u \<noteq> ''all'' \<longrightarrow>
               kv (cache w') ''posts:all'' =
                 Some \<lparr>val = JSON_stringify
                          (JArr (filter (\<lambda>q. member_id q \<noteq> Inr (Some (JStr (params_id req))))
                                   ps)),
                       ttl = None\<rparr>)"
  proof (intro allI impI, elim conjE)
    fix e ps
    assume s: "status r = 200" and k: "kv (cache w) ''posts:all'' = Some e"
      and v: "JSON_parse (Some (val e)) = Inr (JArr ps)"
    have v': "val e = JsonText (JArr ps)"
      using v by simp
    from deletePost_cached [OF s [unfolded r] assms(2) k [folded CACHE_KEY_def] v']
    obtain fs where fs: "filter_js (id_is_not (params_id req)) ps = Inr fs"
      "Cache_set CACHE_KEY (JSON_stringify (JArr fs)) None \<in> set (log w')"
      "u \<noteq> ''all'' \<longrightarrow>
         kv (cache w') CACHE_KEY = Some \<lparr>val = JSON_stringify (JArr fs), ttl = None\<rparr>"
      unfolding w' by blast
    from fs(2,3) show "Cache_set ''posts:all''
              (JSON_stringify
                 (JArr (filter (\<lambda>q. member_id q \<noteq> Inr (Some (JStr (params_id req)))) ps)))
              None \<in> set (log w') \<and>
            (\<forall>q \<in> set (filter (\<lambda>q. member_id q \<noteq> Inr (Some (JStr (params_id req)))) ps).
               member_id q \<noteq> Inr (Some (JStr (params_id req)))) \<and>
            (u \<noteq> ''all'' \<longrightarrow>
               kv (cache w') ''posts:all'' =
                 Some \<lparr>val = JSON_stringify
                          (JArr (filter (\<lambda>q. member_id q \<noteq> Inr (Some (JStr (params_id req))))
                                   ps)),
                       ttl = None\<rparr>)"
      unfolding filter_js_Inr [OF fs(1), symmetric] CACHE_KEY_def
      by (simp add: filter_js_Inr [OF fs(1)])
  qed
  from c1 c2 c3 c4 c5 c6 show ?thesis
    by (intro conjI)
qed

lemma deletePost_checks_in_order_demo:
  "status (fst (deletePost demo_env bad_id_req warm_world)) = 400 \<and>
   snd (deletePost demo_env bad_id_req warm_world) = warm_world \<and>
   status (fst (deletePost demo_env missing_req warm_world)) = 404 \<and>
   status (fst (deletePost demo_env intruder_req warm_world)) = 403 \<and>
   store (snd (deletePost demo_env intruder_req warm_world)) = demo_db \<and>
   posts (store (snd (deletePost demo_env delete_req warm_world))) = [post2] \<and>
   kv (cache (snd (deletePost demo_env delete_req warm_world))) ''posts:all'' =
     Some \<lparr>val = JsonText (JArr [populated demo_db post2]), ttl = None\<rparr>"
proof -
  let ?b = "deletePost demo_env bad_id_req warm_world"
  let ?m = "deletePost demo_env missing_req warm_world"
  let ?i = "deletePost demo_env intruder_req warm_world"
  let ?d = "deletePost demo_env delete_req warm_world"
  have al: "alice_id \<noteq> []" "alice_id \<noteq> ''all''" and bo: "bob_id \<noteq> []"
    by (simp_all add: alice_id_def bob_id_def)
  have v: "isValid demo_env post1_id" "\<not> isValid demo_env ''not-an-id''"
    "isValid demo_env ''000000000000000000000009''"
    by (simp_all add: demo_env_def hex24_def is_hex_def post1_id_def)
  have f: "find (\<lambda>p. post_id p = post1_id) (posts (store warm_world)) = Some post1"
    "find (\<lambda>p. post_id p = ''000000000000000000000009'') (posts (store warm_world)) = None"
    by (simp_all add: warm_world_def demo_db_def post1_def post2_def post1_id_def post2_id_def)
  have au: "author post1 = alice_id" "author post1 \<noteq> bob_id"
    by (simp_all add: post1_def alice_id_def bob_id_def)
  have k: "kv (cache warm_world) ''posts:all'' =
             Some \<lparr>val = JsonText (JArr demo_listing), ttl = Some 43200\<rparr>"
    by (simp add: warm_world_def)
  have fl: "filter (\<lambda>q. member_id q \<noteq> Inr (Some (JStr post1_id))) demo_listing =
              [populated demo_db post2]"
    by (simp add: demo_listing_def member_id_def populated_def post1_def post2_def
        post1_id_def post2_id_def)
  have df: "delete_first (\<lambda>q. post_id q = post1_id) (posts (store warm_world)) = [post2]"
    by (simp add: warm_world_def demo_db_def post1_def)
  have u: "user bad_id_req = Some alice_id" "user missing_req = Some alice_id"
    "user intruder_req = Some bob_id" "user delete_req = Some alice_id"
    and pi: "params_id bad_id_req = ''not-an-id''"
    "params_id missing_req = ''000000000000000000000009''"
    "params_id intruder_req = post1_id" "params_id delete_req = post1_id"
    by (simp_all add: bad_id_req_def missing_req_def intruder_req_def delete_req_def)
  note Tb = deletePost_checks_in_order [OF surjective_pairing u(1) al(1),
      of demo_env warm_world]
  note Tm = deletePost_checks_in_order [OF surjective_pairing u(2) al(1),
      of demo_env warm_world]
  note Ti = deletePost_checks_in_order [OF surjective_pairing u(3) bo,
      of demo_env warm_world]
  note Td = deletePost_checks_in_order [OF surjective_pairing u(4) al(1),
      of demo_env warm_world]
  have B: "status (fst ?b) = 400 \<and> snd ?b = warm_world"
    using Tb [THEN conjunct1] v(2) by (simp add: pi demo_cast)
  have M: "status (fst ?m) = 404"
    using Tm [THEN conjunct2, THEN conjunct1] v(3) f(2) by (simp add: pi demo_cast)
  have "status (fst ?i) = 403 \<and> store (snd ?i) = store warm_world"
    using Ti [THEN conjunct2, THEN conjunct2, THEN conjunct1, rule_format, of post1]
      v(1) f(1) au(2)
    by (simp add: pi demo_cast)
  then have I: "status (fst ?i) = 403 \<and> store (snd ?i) = demo_db"
    by (simp add: warm_world_def)
  have "store (snd ?d) =
          (store warm_world)\<lparr>posts := delete_first (\<lambda>q. post_id q = post1_id)
                                         (posts (store warm_world))\<rparr>"
    using Td [THEN conjunct2, THEN conjunct2, THEN conjunct2, THEN conjunct1, rule_format,
        of post1] v(1) f(1) au(1)
    by (simp add: pi demo_cast)
  then have D1: "posts (store (snd ?d)) = [post2]"
    by (simp add: df)
  have D2: "kv (cache (snd ?d)) ''posts:all'' =
             Some \<lparr>val = JsonText (JArr [populated demo_db post2]), ttl = None\<rparr>"
    using Td [THEN conjunct2, THEN conjunct2, THEN conjunct2, THEN conjunct2, THEN conjunct2,
        rule_format, of "\<lparr>val = JsonText (JArr demo_listing), ttl = Some 43200\<rparr>" demo_listing]
      k delete_warm_status al(2)
    by (simp add: pi fl JSON_stringify_def)
  from B M I D1 D2 show ?thesis
    by simp
qed

subsection \<open>An identifier spelled in upper case\<close>

text \<open>
  Claim C3 fails on the code. The store finds the post by the ObjectId the request's
  identifier is cast to, the cached list is searched for the identifier as the request
  spells it. The post stored under \<^verbatim>\<open>00000000000000000000000a\<close> is in the cached list;
  its author updates it under \<^verbatim>\<open>00000000000000000000000A\<close>. The request is answered
  200 and the stored content is the new one, but no entry of the cached list matches:
  nothing is written under \<^verbatim>\<open>posts:all\<close>, which keeps the entry with the old content
  and its expiry.
\<close>

theorem updatePost_respelled_identifier_leaves_stale_entry:
  "status (fst (updatePost demo_env upper_edit_req letter_world)) = 200 \<and>
   posts (store (snd (updatePost demo_env upper_edit_req letter_world))) =
     [post_a\<lparr>content := ''edited''\<rparr>] \<and>
   member_id (populated letter_db post_a) = Inr (Some (JStr post_a_id)) \<and>
   kv (cache letter_world) ''posts:all'' =
     Some \<lparr>val = JsonText (JArr [populated letter_db post_a]), ttl = Some 43200\<rparr> \<and>
   kv (cache (snd (updatePost demo_env upper_edit_req letter_world))) ''posts:all'' =
     Some \<lparr>val = JsonText (JArr [populated letter_db post_a]), ttl = Some 43200\<rparr> \<and>
   log (snd (updatePost demo_env upper_edit_req letter_world)) =
     [Db (Post_findById ''00000000000000000000000A''),
      Db (Post_findByIdAndUpdate ''00000000000000000000000A''),
      Db (Post_findById ''00000000000000000000000a''),
      Cache_get ''posts:all'',
      Cache_del ''profile:aaaaaaaaaaaaaaaaaaaaaaaa'',
      Cache_del ''posts:aaaaaaaaaaaaaaaaaaaaaaaa'']"
  by (simp add: updatePost_def upper_edit_req_def post_a_id_def post_a_def
        letter_db_def letter_world_def eval_defs)

text \<open>
  Claim C4 fails on the code in its last part, by the same comparison. The author
  deletes the post stored under \<^verbatim>\<open>00000000000000000000000a\<close> with a request that
  spells the identifier \<^verbatim>\<open>00000000000000000000000A\<close>. The request is answered 200 and
  the post is removed from the store, but the filter on the cached list compares with
  the request's spelling and removes nothing: the list written back under
  \<^verbatim>\<open>posts:all\<close> still has the entry of the deleted post.
\<close>

theorem deletePost_respelled_identifier_stays_cached:
  "status (fst (deletePost demo_env upper_delete_req letter_world)) = 200 \<and>
   posts (store letter_world) = [post_a] \<and>
   posts (store (snd (deletePost demo_env upper_delete_req letter_world))) = [] \<and>
   member_id (populated letter_db post_a) = Inr (Some (JStr post_a_id)) \<and>
   kv (cache (snd (deletePost demo_env upper_delete_req letter_world))) ''posts:all'' =
     Some \<lparr>val = JsonText (JArr [populated letter_db post_a]), ttl = None\<rparr>"
  by (simp add: deletePost_def upper_delete_req_def post_a_id_def post_a_def
        letter_db_def letter_world_def eval_defs)

end
